theory Spec2Isabelle
  imports Complex_Main "HOL-Library.Multiset"
begin

text \<open>
  A verification development for Nudge, a conversational discount negotiator. The
  first part embeds the Python sources, module by module, as functions on explicit
  state: the configuration, the negotiation state and the pricing service, the trait
  detector, the fact-check router with the regular expressions it searches, the
  Shopify client and the discount service, and the Bouncer agent. Mutation is state
  passing, a dictionary is a record or a datatype, an exception is a value, and
  whatever the program asks of the outside (clock, random generator, HTTP endpoints,
  language model) is an argument. The second part fixes the vocabulary of the
  properties, and the third proves them.
\<close>


section \<open>Merchant configuration (config\_loader.py)\<close>

text \<open>
  \<open>Config\<close> wraps the dictionary read from \<open>merchant_config.json\<close>; each property
  is a \<open>dict.get\<close> with a default. A key that may be missing is an \<open>option\<close> field.
  Percentages are Python numbers; they are modelled as exact rationals.

  A trait entry of \<open>valuable_traits\<close> is either a dictionary (with optional
  \<open>keywords\<close> and \<open>discount_bonus_pct\<close>), a bare list of keywords (legacy), or
  some other JSON value. The catalog is an association list: Python dictionaries
  iterate in insertion order.
\<close>

datatype trait_info =
    TraitDict "string list option" "rat option"
  | TraitList "string list"
  | TraitOther

record merchant_config =
  mc_max_discount_pct :: "rat option"
  mc_floor_margin_pct :: "rat option"
  mc_first_offer_pct :: "rat option"
  mc_counter_step_pct :: "rat option"
  mc_tool_calls :: "string list option"
  mc_valuable_traits :: "(string \<times> trait_info) list option"
  mc_max_trait_bonus_pct :: "rat option"

definition max_discount_pct :: "merchant_config \<Rightarrow> rat" where
  "max_discount_pct c = (case mc_max_discount_pct c of Some v \<Rightarrow> v | None \<Rightarrow> 20)"

definition floor_margin_pct :: "merchant_config \<Rightarrow> rat" where
  "floor_margin_pct c = (case mc_floor_margin_pct c of Some v \<Rightarrow> v | None \<Rightarrow> 18)"

definition tool_calls :: "merchant_config \<Rightarrow> string list" where
  "tool_calls c = (case mc_tool_calls c of Some v \<Rightarrow> v | None \<Rightarrow> [])"

definition first_offer_pct :: "merchant_config \<Rightarrow> rat" where
  "first_offer_pct c = (case mc_first_offer_pct c of Some v \<Rightarrow> v | None \<Rightarrow> 8)"

definition counter_step_pct :: "merchant_config \<Rightarrow> rat" where
  "counter_step_pct c = (case mc_counter_step_pct c of Some v \<Rightarrow> v | None \<Rightarrow> 3)"

text \<open>The configuration in which every key is missing, so that every default applies.\<close>

definition default_config :: merchant_config where
  "default_config =
     \<lparr>mc_max_discount_pct = None, mc_floor_margin_pct = None, mc_first_offer_pct = None,
      mc_counter_step_pct = None, mc_tool_calls = None, mc_valuable_traits = None,
      mc_max_trait_bonus_pct = None\<rparr>"



section \<open>Python strings\<close>

text \<open>
  A Python \<open>str\<close> is a sequence of code points. The model takes the characters with
  code points below 256 (ASCII and the Latin-1 supplement), one \<open>char\<close> each, and gives
  \<open>str.lower\<close>, \<open>str.strip\<close> and the substring test \<open>in\<close> their Python meaning on
  that range: \<open>lower\<close> maps \<open>A\<close> to \<open>Z\<close> and the capital letters \<open>U+00C0\<close> to
  \<open>U+00DE\<close> (the multiplication sign \<open>U+00D7\<close> apart) 32 places up; \<open>strip\<close>
  removes the characters for which \<open>str.isspace\<close> holds from both ends.
\<close>

definition lower_char :: "char \<Rightarrow> char" where
  "lower_char c =
     (let n = (of_char c :: nat)
      in if (65 \<le> n \<and> n \<le> 90) \<or> (192 \<le> n \<and> n \<le> 222 \<and> n \<noteq> 215)
         then char_of (n + 32) else c)"

definition str_lower :: "string \<Rightarrow> string" where
  "str_lower s = map lower_char s"

definition is_space :: "char \<Rightarrow> bool" where
  "is_space c =
     (let n = (of_char c :: nat)
      in (9 \<le> n \<and> n \<le> 13) \<or> (28 \<le> n \<and> n \<le> 32) \<or> n = 133 \<or> n = 160)"

definition str_strip :: "string \<Rightarrow> string" where
  "str_strip s = rev (dropWhile is_space (rev (dropWhile is_space s)))"

text \<open>\<open>str_contains sub s\<close> is Python's \<open>sub in s\<close>.\<close>

fun str_contains :: "string \<Rightarrow> string \<Rightarrow> bool" where
  "str_contains sub [] = (sub = [])"
| "str_contains sub (c # cs) = (take (length sub) (c # cs) = sub \<or> str_contains sub cs)"


section \<open>Negotiation state (pricing\_service.py, class NegotiationState)\<close>

text \<open>
  An entry of \<open>offers\<close> is a dictionary with the four keys below. The clock
  (\<open>datetime.now()\<close>) is an explicit argument \<open>now\<close> of every operation that reads it.
\<close>

record offer =
  o_counter :: nat
  o_discount_pct :: rat
  o_margin_pct :: rat
  o_timestamp :: int

record NegotiationState =
  config :: merchant_config
  counter :: nat
  max_counters :: nat
  current_discount_pct :: rat
  offers :: "offer list"
  started_at :: int

definition NegotiationState_init :: "merchant_config \<Rightarrow> int \<Rightarrow> NegotiationState" where
  "NegotiationState_init cfg now =
     \<lparr>config = cfg, counter = 0, max_counters = 3, current_discount_pct = 0,
      offers = [], started_at = now\<rparr>"

definition can_make_counter :: "NegotiationState \<Rightarrow> bool" where
  "can_make_counter s = (counter s < max_counters s)"

text \<open>
  The dictionary returned by \<open>make_offer\<close>. A failure carries the error; the three
  messages of the source are the three constructors, with the numbers the message
  prints. A success carries the four keys \<open>make_offer\<close> sets, and the three keys that
  only \<open>make_discount_offer\<close> adds (absent until then).
\<close>

datatype offer_error =
    ExceedsMaximum rat rat
  | CountersReached nat
  | BelowFloor rat rat rat

record offer_success =
  r_discount_pct :: rat
  r_margin_pct :: rat
  r_counter :: nat
  r_remaining_counters :: int
  r_trait_bonus_applied :: "bool option"
  r_base_discount_pct :: "rat option"
  r_trait_bonus_pct :: "rat option"

datatype offer_result = Failed offer_error | Offered offer_success

fun success :: "offer_result \<Rightarrow> bool" where
  "success (Failed e) = False"
| "success (Offered r) = True"

definition make_offer ::
  "int \<Rightarrow> rat \<Rightarrow> NegotiationState \<Rightarrow> offer_result \<times> NegotiationState" where
  "make_offer now discount_pct s =
     (if discount_pct > max_discount_pct (config s) then
        (Failed (ExceedsMaximum discount_pct (max_discount_pct (config s))), s)
      else if counter s \<ge> max_counters s then
        (Failed (CountersReached (max_counters s)), s)
      else
        let margin_pct = 100 - discount_pct in
        if margin_pct < floor_margin_pct (config s) then
          (Failed (BelowFloor discount_pct margin_pct (floor_margin_pct (config s))), s)
        else
          let c = counter s + 1;
              entry = \<lparr>o_counter = c, o_discount_pct = discount_pct,
                       o_margin_pct = margin_pct, o_timestamp = now\<rparr>;
              s' = s\<lparr>counter := c, current_discount_pct := discount_pct,
                      offers := offers s @ [entry]\<rparr>
          in (Offered \<lparr>r_discount_pct = discount_pct, r_margin_pct = margin_pct,
                       r_counter = c,
                       r_remaining_counters = int (max_counters s) - int c,
                       r_trait_bonus_applied = None, r_base_discount_pct = None,
                       r_trait_bonus_pct = None\<rparr>, s'))"

definition get_next_offer ::
  "int \<Rightarrow> rat option \<Rightarrow> NegotiationState \<Rightarrow> offer_result \<times> NegotiationState" where
  "get_next_offer now previous_discount s =
     (let discount =
            (if counter s = 0 then first_offer_pct (config s)
             else case previous_discount of
                    Some p \<Rightarrow> p + counter_step_pct (config s)
                  | None \<Rightarrow> current_discount_pct s + counter_step_pct (config s));
          discount' = min discount (max_discount_pct (config s))
      in make_offer now discount' s)"


section \<open>Pricing service (pricing\_service.py, class PricingService)\<close>

record PricingService =
  ps_config :: merchant_config
  negotiations :: "string \<rightharpoonup> NegotiationState"

definition PricingService_init :: "merchant_config \<Rightarrow> PricingService" where
  "PricingService_init cfg = \<lparr>ps_config = cfg, negotiations = Map.empty\<rparr>"

definition get_negotiation ::
  "int \<Rightarrow> string \<Rightarrow> PricingService \<Rightarrow> NegotiationState \<times> PricingService" where
  "get_negotiation now session_id svc =
     (case negotiations svc session_id of
        None \<Rightarrow>
          (let n = NegotiationState_init (ps_config svc) now
           in (n, svc\<lparr>negotiations := (negotiations svc)(session_id \<mapsto> n)\<rparr>))
      | Some n \<Rightarrow> (n, svc))"

text \<open>
  \<open>make_discount_offer\<close> in three parts, in the order of the source: the session is
  fetched (or created), the offer is made (lines 142 to 148, \<open>requested_offer\<close>), and
  the trait bonus amends it (lines 150 to 177, \<open>apply_trait_bonus\<close>). The session
  object is mutated in place in the source; the model writes it back to the registry.
\<close>

definition requested_offer ::
  "int \<Rightarrow> rat option \<Rightarrow> NegotiationState \<Rightarrow> offer_result \<times> NegotiationState" where
  "requested_offer now discount_pct negotiation =
     (case discount_pct of
        None \<Rightarrow>
          (let previous_discount =
                 (if offers negotiation \<noteq> [] then Some (current_discount_pct negotiation)
                  else None)
           in get_next_offer now previous_discount negotiation)
      | Some d \<Rightarrow> make_offer now d negotiation)"

definition amend_last :: "rat \<Rightarrow> rat \<Rightarrow> offer list \<Rightarrow> offer list" where
  "amend_last final_discount final_margin os =
     (if os \<noteq> [] then
        butlast os @ [(last os)\<lparr>o_discount_pct := final_discount, o_margin_pct := final_margin\<rparr>]
      else os)"

definition apply_trait_bonus ::
  "merchant_config \<Rightarrow> rat \<Rightarrow> offer_result \<times> NegotiationState
     \<Rightarrow> offer_result \<times> NegotiationState" where
  "apply_trait_bonus cfg trait_bonus_pct rn =
     (case rn of
        (Failed e, negotiation) \<Rightarrow> (Failed e, negotiation)
      | (Offered r, negotiation) \<Rightarrow>
          if trait_bonus_pct > 0 then
            let base_discount = r_discount_pct r;
                bonus_discount = base_discount + trait_bonus_pct;
                max_allowed = max_discount_pct cfg;
                final_discount = min bonus_discount max_allowed
            in if final_discount > base_discount then
                 let final_margin = 100 - final_discount
                 in if final_margin \<ge> floor_margin_pct cfg then
                      (Offered (r\<lparr>r_discount_pct := final_discount,
                                   r_margin_pct := final_margin,
                                   r_trait_bonus_applied := Some True,
                                   r_base_discount_pct := Some base_discount,
                                   r_trait_bonus_pct := Some trait_bonus_pct\<rparr>),
                       negotiation\<lparr>current_discount_pct := final_discount,
                                    offers := amend_last final_discount final_margin
                                                (offers negotiation)\<rparr>)
                    else (Offered r, negotiation)
               else (Offered r, negotiation)
          else (Offered r, negotiation))"

definition make_discount_offer ::
  "int \<Rightarrow> string \<Rightarrow> rat option \<Rightarrow> rat \<Rightarrow> PricingService \<Rightarrow> offer_result \<times> PricingService" where
  "make_discount_offer now session_id discount_pct trait_bonus_pct svc =
     (let (negotiation, svc1) = get_negotiation now session_id svc;
          (result, negotiation') =
             apply_trait_bonus (ps_config svc1) trait_bonus_pct
               (requested_offer now discount_pct negotiation)
      in (result, svc1\<lparr>negotiations := (negotiations svc1)(session_id \<mapsto> negotiation')\<rparr>))"

definition can_negotiate :: "int \<Rightarrow> string \<Rightarrow> PricingService \<Rightarrow> bool \<times> PricingService" where
  "can_negotiate now session_id svc =
     (let (negotiation, svc1) = get_negotiation now session_id svc
      in (can_make_counter negotiation, svc1))"

section \<open>Trait detector (trait\_detector.py)\<close>

text \<open>
  An element of the list returned by \<open>detect_traits\<close> is a dictionary with the keys
  \<open>trait\<close>, \<open>confidence\<close> and \<open>matches\<close>.
\<close>

record trait_detection =
  td_trait :: string
  td_confidence :: rat
  td_matches :: nat

record TraitDetector =
  tdr_config :: merchant_config
  tdr_detected_traits :: "string list"
  trait_keywords :: "(string \<times> string list) list"

definition valuable_traits :: "merchant_config \<Rightarrow> (string \<times> trait_info) list" where
  "valuable_traits c = (case mc_valuable_traits c of Some t \<Rightarrow> t | None \<Rightarrow> [])"

definition load_trait_keywords :: "merchant_config \<Rightarrow> (string \<times> string list) list" where
  "load_trait_keywords cfg =
     List.map_filter
       (\<lambda>(trait_name, trait_info).
          case trait_info of
            TraitDict (Some keywords) bonus \<Rightarrow> Some (trait_name, keywords)
          | TraitDict None bonus \<Rightarrow> None
          | TraitList keywords \<Rightarrow> Some (trait_name, keywords)
          | TraitOther \<Rightarrow> None)
       (valuable_traits cfg)"

definition TraitDetector_init :: "merchant_config \<Rightarrow> TraitDetector" where
  "TraitDetector_init cfg =
     \<lparr>tdr_config = cfg, tdr_detected_traits = [], trait_keywords = load_trait_keywords cfg\<rparr>"

text \<open>
  The body of the loop of \<open>detect_traits\<close> for one catalog entry: the number of
  keywords whose lowercase form occurs in the lowercase text, and the detection
  appended when that number is positive.
\<close>

definition count_matches :: "string \<Rightarrow> string list \<Rightarrow> nat" where
  "count_matches text_lower keywords =
     length (filter (\<lambda>keyword. str_contains (str_lower keyword) text_lower) keywords)"

definition score_trait :: "string \<Rightarrow> string \<times> string list \<Rightarrow> trait_detection option" where
  "score_trait text_lower entry =
     (case entry of (trait_name, keywords) \<Rightarrow>
        let matches = count_matches text_lower keywords
        in if matches > 0 then
             Some \<lparr>td_trait = trait_name,
                   td_confidence = min (of_nat matches / of_nat (length keywords) * 2) 1,
                   td_matches = matches\<rparr>
           else None)"

text \<open>
  \<open>detected.sort(key=lambda x: x['confidence'], reverse=True)\<close>: Python's sort is
  stable, also with \<open>reverse=True\<close>, so elements of equal confidence keep their order.
  \<open>sort_key\<close> is a stable insertion sort; the key is negated for the descending order.
\<close>

definition sort_by_confidence :: "trait_detection list \<Rightarrow> trait_detection list" where
  "sort_by_confidence detected = sort_key (\<lambda>x. - td_confidence x) detected"

definition detect_traits ::
  "string \<Rightarrow> TraitDetector \<Rightarrow> trait_detection list \<times> TraitDetector" where
  "detect_traits conversation_text td =
     (let text_lower = str_lower conversation_text;
          detected = List.map_filter (score_trait text_lower) (trait_keywords td);
          detected' = sort_by_confidence detected
      in (detected', td\<lparr>tdr_detected_traits := map td_trait detected'\<rparr>))"

definition trait_bonus_of :: "merchant_config \<Rightarrow> string \<Rightarrow> rat" where
  "trait_bonus_of cfg trait_name =
     (case map_of (valuable_traits cfg) trait_name of
        Some (TraitDict keywords (Some bonus_pct)) \<Rightarrow> bonus_pct
      | _ \<Rightarrow> 0)"

definition max_trait_bonus_pct :: "merchant_config \<Rightarrow> rat" where
  "max_trait_bonus_pct c = (case mc_max_trait_bonus_pct c of Some v \<Rightarrow> v | None \<Rightarrow> 10)"

definition get_discount_bonus :: "trait_detection list \<Rightarrow> TraitDetector \<Rightarrow> rat" where
  "get_discount_bonus traits td =
     (if traits = [] then 0
      else
        let total_bonus =
              foldl (\<lambda>total trait_info.
                       total + trait_bonus_of (tdr_config td) (td_trait trait_info)
                                 * td_confidence trait_info) 0 traits;
            max_bonus = max_trait_bonus_pct (tdr_config td)
        in min total_bonus max_bonus)"

definition has_valuable_trait :: "TraitDetector \<Rightarrow> bool" where
  "has_valuable_trait td = (length (tdr_detected_traits td) > 0)"


section \<open>Regular expressions (the part of Python's re the router uses)\<close>

text \<open>
  The patterns of \<open>agent_router.py\<close> are built from literal text, the groups
  \<open>(.+)\<close> and \<open>(.+?)\<close>, and alternatives of literals. \<open>re.search\<close> is a
  backtracking matcher: it tries the start positions from left to right and, at each,
  explores the alternatives in order (a greedy \<open>.+\<close> the longest run first, a lazy
  \<open>.+?\<close> the shortest first, the branches of \<open>|\<close> left to right); the first
  complete match found wins and fixes the groups. \<open>match_here\<close> lists, in that order, the
  ways a pattern can match at the start of the input: each with the input left and the
  groups captured. The dot matches every character but the newline. A group carries
  its number.
\<close>

datatype regex =
    Lit string
  | AnyPlus
  | AnyPlusLazy
  | Alt regex regex
  | Seq regex regex
  | Group nat regex

type_synonym captures = "(nat \<times> string) list"

definition char_matches :: "bool \<Rightarrow> char \<Rightarrow> char \<Rightarrow> bool" where
  "char_matches ignorecase p c = (if ignorecase then lower_char p = lower_char c else p = c)"

fun lit_match :: "bool \<Rightarrow> string \<Rightarrow> string \<Rightarrow> string option" where
  "lit_match ignorecase [] s = Some s"
| "lit_match ignorecase (p # ps) [] = None"
| "lit_match ignorecase (p # ps) (c # cs) =
     (if char_matches ignorecase p c then lit_match ignorecase ps cs else None)"

definition dot_run :: "string \<Rightarrow> nat" where
  "dot_run s = length (takeWhile (\<lambda>c. c \<noteq> CHR 0x0A) s)"

fun match_here :: "bool \<Rightarrow> regex \<Rightarrow> string \<Rightarrow> captures \<Rightarrow> (string \<times> captures) list" where
  "match_here ic (Lit l) s caps =
     (case lit_match ic l s of None \<Rightarrow> [] | Some rest \<Rightarrow> [(rest, caps)])"
| "match_here ic AnyPlus s caps = map (\<lambda>k. (drop k s, caps)) (rev [1..<Suc (dot_run s)])"
| "match_here ic AnyPlusLazy s caps = map (\<lambda>k. (drop k s, caps)) [1..<Suc (dot_run s)]"
| "match_here ic (Alt a b) s caps = match_here ic a s caps @ match_here ic b s caps"
| "match_here ic (Seq a b) s caps =
     concat (map (\<lambda>m. match_here ic b (fst m) (snd m)) (match_here ic a s caps))"
| "match_here ic (Group i r) s caps =
     map (\<lambda>m. (fst m, (i, take (length s - length (fst m)) s) # snd m)) (match_here ic r s caps)"

text \<open>\<open>re.search\<close>: the groups of the first match, or \<open>None\<close>.\<close>

fun re_search :: "bool \<Rightarrow> regex \<Rightarrow> string \<Rightarrow> captures option" where
  "re_search ic r [] =
     (case match_here ic r [] [] of [] \<Rightarrow> None | m # ms \<Rightarrow> Some (snd m))"
| "re_search ic r (c # cs) =
     (case match_here ic r (c # cs) [] of [] \<Rightarrow> re_search ic r cs | m # ms \<Rightarrow> Some (snd m))"

definition group :: "captures \<Rightarrow> nat \<Rightarrow> string option" where
  "group m i = map_of m i"

fun seqs :: "regex list \<Rightarrow> regex" where
  "seqs [] = Lit []"
| "seqs [r] = r"
| "seqs (r # rs) = Seq r (seqs rs)"

fun alts :: "string list \<Rightarrow> regex" where
  "alts [] = Lit []"
| "alts [l] = Lit l"
| "alts (l # ls) = Alt (Lit l) (alts ls)"


section \<open>Agent router (agent\_router.py)\<close>

datatype agent = Brave | LinkedIn

record linkedin_info =
  li_name :: "string option"
  li_company :: "string option"
  li_title :: "string option"

text \<open>
  The dictionary returned by \<open>detect_fact_check_needed\<close> (its keys with the prefix \<open>d_\<close>); a key that a branch does not
  set is \<open>None\<close>.
\<close>

record detection =
  d_needed :: bool
  d_agent_type :: "agent option"
  d_query :: "string option"
  d_confidence :: rat
  d_extracted_info :: "linkedin_info option"
  d_claim :: "string option"

definition fact_check_patterns :: "regex list" where
  "fact_check_patterns =
     [seqs [Lit ''i '', Group 1 (alts [''work'', ''am'']), Lit '' at '', Group 2 AnyPlus],
      seqs [Lit ''i'm '', Group 1 (alts [''a'', ''an'']), Lit '' '', Group 2 AnyPlus],
      seqs [Lit ''my company is '', Group 1 AnyPlus],
      seqs [Group 1 AnyPlus, Lit '' '', Group 2 (alts [''is'', ''are'']), Lit '' '',
            Group 3 (alts [''a'', ''an'']), Lit '' '', Group 4 AnyPlus],
      seqs [Lit ''according to '', Group 1 AnyPlus],
      seqs [Lit ''i '', Group 1 (alts [''read'', ''heard'', ''saw'']), Lit '' '', Group 2 AnyPlus],
      seqs [Group 1 AnyPlus, Lit '' '', Group 2 (alts [''said'', ''claims'', ''stated'']), Lit '' '',
            Group 3 AnyPlus],
      seqs [Group 1 AnyPlus, Lit '' '', Group 2 (alts [''has'', ''have'']), Lit '' '',
            Group 3 AnyPlus]]"

definition linkedin_patterns :: "regex list" where
  "linkedin_patterns =
     [seqs [Lit ''i work at '', Group 1 AnyPlus],
      seqs [Lit ''my company is '', Group 1 AnyPlus],
      seqs [Lit ''i'm '', Group 1 (alts [''a'', ''an'']), Lit '' '', Group 2 AnyPlus,
            Lit '' at '', Group 3 AnyPlus],
      seqs [Lit ''look up '', Group 1 AnyPlus, Lit '' on linkedin''],
      seqs [Lit ''find '', Group 1 AnyPlus, Lit '' on linkedin'']]"

definition brave_patterns :: "regex list" where
  "brave_patterns =
     [seqs [Group 1 AnyPlus, Lit '' '', Group 2 (alts [''is'', ''are'']), Lit '' '', Group 3 AnyPlus],
      seqs [Lit ''according to '', Group 1 AnyPlus],
      seqs [Lit ''i '', Group 1 (alts [''read'', ''heard'', ''saw'']), Lit '' '', Group 2 AnyPlus],
      seqs [Group 1 AnyPlus, Lit '' '', Group 2 (alts [''said'', ''claims'', ''stated'']), Lit '' '',
            Group 3 AnyPlus]]"

text \<open>
  The loop \<open>for pattern in patterns: match = re.search(...); if match: return ...\<close>:
  the match of the first pattern that matches.
\<close>

fun first_match :: "bool \<Rightarrow> regex list \<Rightarrow> string \<Rightarrow> captures option" where
  "first_match ic [] s = None"
| "first_match ic (p # ps) s =
     (case re_search ic p s of Some m \<Rightarrow> Some m | None \<Rightarrow> first_match ic ps s)"

definition extract_linkedin_info :: "string \<Rightarrow> linkedin_info" where
  "extract_linkedin_info message =
     (let info = \<lparr>li_name = None, li_company = None, li_title = None\<rparr>;
          work_at_match =
            re_search False (seqs [Lit ''i work at '', Group 1 AnyPlus]) (str_lower message);
          info1 = (case work_at_match of
                     Some m \<Rightarrow> info\<lparr>li_company := map_option str_strip (group m 1)\<rparr>
                   | None \<Rightarrow> info);
          title_match =
            re_search False
              (seqs [Lit ''i'm '', Group 1 (alts [''a'', ''an'']), Lit '' '', Group 2 AnyPlusLazy,
                     Lit '' at '', Group 3 AnyPlus]) (str_lower message)
      in case title_match of
           Some m \<Rightarrow> info1\<lparr>li_title := map_option str_strip (group m 2),
                           li_company := map_option str_strip (group m 3)\<rparr>
         | None \<Rightarrow> info1)"

definition detect_fact_check_needed :: "string \<Rightarrow> string \<Rightarrow> detection" where
  "detect_fact_check_needed user_message conversation_context =
     (let message_lower = str_lower user_message;
          context_lower = str_lower conversation_context
      in case first_match True linkedin_patterns message_lower of
           Some m \<Rightarrow>
             \<lparr>d_needed = True, d_agent_type = Some LinkedIn,
              d_query = (if m \<noteq> [] then group m 1 else Some user_message),
              d_confidence = 7 / 10,
              d_extracted_info = Some (extract_linkedin_info user_message),
              d_claim = None\<rparr>
         | None \<Rightarrow>
             (case first_match True brave_patterns message_lower of
                Some m \<Rightarrow>
                  \<lparr>d_needed = True, d_agent_type = Some Brave, d_query = Some user_message,
                   d_confidence = 6 / 10, d_extracted_info = None, d_claim = Some user_message\<rparr>
              | None \<Rightarrow>
                  (case first_match True fact_check_patterns message_lower of
                     Some m \<Rightarrow>
                       \<lparr>d_needed = True, d_agent_type = Some Brave, d_query = Some user_message,
                        d_confidence = 5 / 10, d_extracted_info = None,
                        d_claim = Some user_message\<rparr>
                   | None \<Rightarrow>
                       \<lparr>d_needed = False, d_agent_type = None, d_query = None, d_confidence = 0,
                        d_extracted_info = None, d_claim = None\<rparr>)))"

text \<open>
  The two micro-agents are external capabilities (Composio). An agent object records
  its application name; what its lookups return is read from the environment of the
  call. \<open>BraveAgent.fact_check\<close>, \<open>LinkedInAgent.lookup_person\<close> and
  \<open>lookup_company\<close> catch every exception and always return a dictionary, of which
  the model keeps the keys \<open>success\<close>, \<open>summary\<close> and \<open>error\<close>.
\<close>

datatype composio_agent = ComposioAgent string

record fact_check_result =
  fc_success :: bool
  fc_summary :: "string option"
  fc_error :: "string option"

record capabilities =
  brave_search :: "string \<Rightarrow> fact_check_result"
  linkedin_search_person :: "string option \<Rightarrow> string option \<Rightarrow> fact_check_result"
  linkedin_search_company :: "string \<Rightarrow> fact_check_result"

record AgentRouter =
  ar_config :: merchant_config
  brave_agent :: "composio_agent option"
  linkedin_agent :: "composio_agent option"

text \<open>
  The constructor: an agent is created when its tool is enabled in the configuration
  and Composio is configured (otherwise the constructor of the agent raises and the
  field stays \<open>None\<close>).
\<close>

definition AgentRouter_init :: "merchant_config \<Rightarrow> bool \<Rightarrow> AgentRouter" where
  "AgentRouter_init cfg composio_configured =
     \<lparr>ar_config = cfg,
      brave_agent =
        (if ''brave'' \<in> set (tool_calls cfg) \<and> composio_configured
         then Some (ComposioAgent ''brave'') else None),
      linkedin_agent =
        (if ''linkedin'' \<in> set (tool_calls cfg) \<and> composio_configured
         then Some (ComposioAgent ''linkedin'') else None)\<rparr>"

text \<open>Python's \<open>str(x)\<close> of an optional string, and the truth value of one.\<close>

fun py_str :: "string option \<Rightarrow> string" where
  "py_str None = ''None''"
| "py_str (Some s) = s"

fun truthy :: "string option \<Rightarrow> bool" where
  "truthy None = False"
| "truthy (Some s) = (s \<noteq> [])"

fun agent_name :: "agent option \<Rightarrow> string" where
  "agent_name None = ''None''"
| "agent_name (Some Brave) = ''brave''"
| "agent_name (Some LinkedIn) = ''linkedin''"

definition fact_check :: "capabilities \<Rightarrow> string option \<Rightarrow> fact_check_result" where
  "fact_check env claim = brave_search env (py_str claim @ '' verification facts'')"

definition execute_fact_check ::
  "capabilities \<Rightarrow> agent option \<Rightarrow> string option \<Rightarrow> linkedin_info option \<Rightarrow> AgentRouter
     \<Rightarrow> fact_check_result" where
  "execute_fact_check env agent_type query context router =
     (if agent_type = Some Brave \<and> brave_agent router \<noteq> None then fact_check env query
      else if agent_type = Some LinkedIn \<and> linkedin_agent router \<noteq> None then
        (case context of
           Some info \<Rightarrow>
             if truthy (li_company info) then
               (if truthy (li_name info)
                then linkedin_search_person env (li_name info) (li_company info)
                else linkedin_search_company env (py_str (li_company info)))
             else if truthy (li_name info) then linkedin_search_person env (li_name info) None
             else linkedin_search_person env query None
         | None \<Rightarrow> linkedin_search_person env query None)
      else
        \<lparr>fc_success = False, fc_summary = None,
         fc_error = Some (''Agent type '' @ [CHR 0x27] @ agent_name agent_type @ [CHR 0x27] @
                          '' not available or not configured'')\<rparr>)"

definition should_ask_consent :: "AgentRouter \<Rightarrow> detection \<Rightarrow> bool" where
  "should_ask_consent router detection_result =
     (if \<not> d_needed detection_result then False
      else if d_agent_type detection_result = Some Brave \<and> brave_agent router = None then False
      else if d_agent_type detection_result = Some LinkedIn \<and> linkedin_agent router = None
        then False
      else d_confidence detection_result \<ge> 5 / 10)"


section \<open>Shopify client (shopify\_client.py)\<close>

text \<open>
  What lies outside the program is read from the \<open>world\<close> of a call: the clock (in
  minutes), the answers of the search and lookup capabilities, the answer of the
  Shopify endpoint to a request, the draws of the random generator, and the answer of
  the language model. A Python exception is a value of \<open>py_exception\<close>.
\<close>

datatype py_exception =
    RuntimeError string
  | ValueError string
  | IndexError
  | OtherException string

record shopify_request =
  sq_percentage :: rat
  sq_code :: string
  sq_starts_at :: int
  sq_ends_at :: int
  sq_usage_limit :: int

text \<open>
  The JSON answer of the GraphQL endpoint, as far as \<open>create_discount_code\<close> reads it:
  the messages of \<open>errors\<close> and of \<open>userErrors\<close>, the codes of the created discount
  and its identifier. \<open>requests\<close> raising (connection, timeout, HTTP status) is
  \<open>RequestFailed\<close>.
\<close>

record graphql_response =
  gq_errors :: "string list"
  gq_user_errors :: "string list"
  gq_codes :: "string list"
  gq_id :: "string option"

datatype http_outcome = RequestFailed string | Responded graphql_response

datatype llm_client = OpenAIClient | AnthropicClient | UnknownClient

datatype role = System | User | Assistant

datatype trait_note = NoTraitNote | BonusNote string rat rat | SkepticalNote string

text \<open>
  The content of a message of the conversation history. The texts the program
  formats for the language model alone (the discount note, the probe note, the
  fact-check summary) are kept in structured form: the program never reads them back.
\<close>

datatype content =
    Text string
  | DiscountAvailable string rat nat trait_note
  | NoDiscountYet
  | FactCheckSummary "agent option" string

record message =
  m_role :: role
  m_content :: content

datatype llm_request =
    OpenAIRequest "message list"
  | AnthropicRequest string "message list"

datatype llm_outcome = LLMRaises py_exception | LLMReturns string

record world =
  w_clock :: int
  w_caps :: capabilities
  w_shopify :: "shopify_request \<Rightarrow> http_outcome"
  w_shopify_random :: "nat \<Rightarrow> nat"
  w_local_random :: "nat \<Rightarrow> nat"
  w_llm :: "llm_request \<Rightarrow> llm_outcome"

text \<open>
  \<open>''.join(random.choices(string.ascii_uppercase + string.digits, k=8))\<close>: each of the
  \<open>k\<close> characters is the element of the population at a random index below its length.
\<close>

definition code_alphabet :: string where
  "code_alphabet = ''ABCDEFGHIJKLMNOPQRSTUVWXYZ0123456789''"

definition random_choices :: "string \<Rightarrow> nat \<Rightarrow> (nat \<Rightarrow> nat) \<Rightarrow> string" where
  "random_choices population k draws =
     map (\<lambda>i. population ! (draws i mod length population)) [0..<k]"

datatype ShopifyClient = ShopifyClient string string

definition ShopifyClient_init :: "string option \<Rightarrow> string option \<Rightarrow> py_exception + ShopifyClient" where
  "ShopifyClient_init store_domain access_token =
     (if \<not> truthy store_domain \<or> \<not> truthy access_token then
        Inl (ValueError ''Shopify credentials not found. Set SHOPIFY_STORE_DOMAIN and SHOPIFY_ACCESS_TOKEN in .env'')
      else Inr (ShopifyClient (py_str store_domain) (py_str access_token)))"

record shopify_created =
  sc_code :: string
  sc_discount_id :: "string option"
  sc_expires_at :: int

datatype shopify_result = ShopifyFailure string | ShopifySuccess shopify_created

definition create_discount_code ::
  "world \<Rightarrow> rat \<Rightarrow> string option \<Rightarrow> int option \<Rightarrow> int option \<Rightarrow> int
     \<Rightarrow> py_exception + shopify_result" where
  "create_discount_code w percentage code starts_at ends_at usage_limit =
     (let starts_at' = (case starts_at of None \<Rightarrow> w_clock w | Some t \<Rightarrow> t);
          ends_at' = (case ends_at of None \<Rightarrow> starts_at' + 10 | Some t \<Rightarrow> t);
          code' = (case code of
                     None \<Rightarrow> random_choices code_alphabet 8 (w_shopify_random w)
                   | Some c \<Rightarrow> c)
      in case w_shopify w \<lparr>sq_percentage = percentage, sq_code = code',
                            sq_starts_at = starts_at', sq_ends_at = ends_at',
                            sq_usage_limit = usage_limit\<rparr> of
           RequestFailed e \<Rightarrow> Inl (RuntimeError (''Shopify API request failed: '' @ e))
         | Responded result \<Rightarrow>
             (case gq_errors result of
                e # es \<Rightarrow> Inr (ShopifyFailure e)
              | [] \<Rightarrow>
                 (case gq_user_errors result of
                    e # es \<Rightarrow> Inr (ShopifyFailure e)
                  | [] \<Rightarrow>
                      Inr (ShopifySuccess
                             \<lparr>sc_code = (case gq_codes result of c # cs \<Rightarrow> c | [] \<Rightarrow> code'),
                              sc_discount_id = gq_id result,
                              sc_expires_at = ends_at'\<rparr>))))"


section \<open>Discount service (discount\_service.py)\<close>

record DiscountService =
  ds_config :: merchant_config
  shopify_client :: "ShopifyClient option"
  pricing_service :: PricingService
  ds_trait_detector :: TraitDetector

text \<open>
  The constructor swallows the error of \<open>ShopifyClient()\<close>: without credentials the
  client is \<open>None\<close>.
\<close>

definition DiscountService_init ::
  "merchant_config \<Rightarrow> string option \<Rightarrow> string option \<Rightarrow> DiscountService" where
  "DiscountService_init cfg store_domain access_token =
     \<lparr>ds_config = cfg,
      shopify_client =
        (case ShopifyClient_init store_domain access_token of
           Inl e \<Rightarrow> None | Inr c \<Rightarrow> Some c),
      pricing_service = PricingService_init cfg,
      ds_trait_detector = TraitDetector_init cfg\<rparr>"

text \<open>
  The dictionary \<open>create_negotiation_discount\<close> returns: the failed offer as it is, a
  failure of the code creation (\<open>success: False\<close> with the error and the discount),
  or the discount payload. \<open>dp_simulated\<close> is the key \<open>simulated\<close>, which only a
  simulated code carries.
\<close>

record discount_payload =
  dp_discount_code :: string
  dp_discount_pct :: rat
  dp_expires_at :: int
  dp_counter :: nat
  dp_remaining_counters :: int
  dp_shopify_id :: "string option"
  dp_simulated :: bool
  dp_detected_traits :: "string list"
  dp_trait_bonus_applied :: bool
  dp_base_discount_pct :: rat

datatype discount_result =
    OfferRefused offer_error
  | CodeFailed string rat
  | CodeCreated discount_payload


definition create_simulated_discount ::
  "world \<Rightarrow> string \<Rightarrow> rat \<Rightarrow> string option \<Rightarrow> int \<Rightarrow> offer_success \<Rightarrow> string list
     \<Rightarrow> discount_result" where
  "create_simulated_discount w session_id discount_pct code expires_minutes offer_result
       detected_traits =
     (let code' = (case code of
                     None \<Rightarrow> random_choices code_alphabet 8 (w_local_random w)
                   | Some c \<Rightarrow> c);
          expires_at = w_clock w + expires_minutes
      in CodeCreated
           \<lparr>dp_discount_code = code', dp_discount_pct = discount_pct,
            dp_expires_at = expires_at, dp_counter = r_counter offer_result,
            dp_remaining_counters = r_remaining_counters offer_result,
            dp_shopify_id = None, dp_simulated = True,
            dp_detected_traits = detected_traits,
            dp_trait_bonus_applied =
              (case r_trait_bonus_applied offer_result of Some b \<Rightarrow> b | None \<Rightarrow> False),
            dp_base_discount_pct =
              (case r_base_discount_pct offer_result of Some b \<Rightarrow> b | None \<Rightarrow> discount_pct)\<rparr>)"

definition create_negotiation_discount ::
  "world \<Rightarrow> string \<Rightarrow> rat option \<Rightarrow> string option \<Rightarrow> int \<Rightarrow> int \<Rightarrow> string option
     \<Rightarrow> DiscountService \<Rightarrow> discount_result \<times> DiscountService" where
  "create_negotiation_discount w session_id discount_pct code expires_minutes usage_limit
       conversation_text ds =
     (let (trait_bonus_pct, detected_traits, detector) =
            (if truthy conversation_text then
               let (traits, detector') =
                     detect_traits (py_str conversation_text) (ds_trait_detector ds)
               in if traits \<noteq> [] then
                    (get_discount_bonus traits detector', map td_trait traits, detector')
                  else (0, [], detector')
             else (0, [], ds_trait_detector ds));
          (offer_result, pricing) =
            make_discount_offer (w_clock w) session_id discount_pct trait_bonus_pct
              (pricing_service ds);
          ds' = ds\<lparr>ds_trait_detector := detector, pricing_service := pricing\<rparr>
      in case offer_result of
           Failed e \<Rightarrow> (OfferRefused e, ds')
         | Offered r \<Rightarrow>
             (let discount_pct' = r_discount_pct r
              in case shopify_client ds' of
                   Some client \<Rightarrow>
                     (let starts_at = w_clock w;
                          ends_at = starts_at + expires_minutes
                      in case create_discount_code w discount_pct' code (Some starts_at)
                                (Some ends_at) usage_limit of
                           Inr (ShopifySuccess result) \<Rightarrow>
                             (CodeCreated
                                \<lparr>dp_discount_code = sc_code result,
                                 dp_discount_pct = discount_pct',
                                 dp_expires_at = sc_expires_at result,
                                 dp_counter = r_counter r,
                                 dp_remaining_counters = r_remaining_counters r,
                                 dp_shopify_id = sc_discount_id result,
                                 dp_simulated = False,
                                 dp_detected_traits = detected_traits,
                                 dp_trait_bonus_applied =
                                   (case r_trait_bonus_applied r of Some b \<Rightarrow> b | None \<Rightarrow> False),
                                 dp_base_discount_pct =
                                   (case r_base_discount_pct r of
                                      Some b \<Rightarrow> b | None \<Rightarrow> discount_pct')\<rparr>, ds')
                         | Inr (ShopifyFailure e) \<Rightarrow> (CodeFailed e discount_pct', ds')
                         | Inl e \<Rightarrow>
                             (create_simulated_discount w session_id discount_pct' code
                                expires_minutes r detected_traits, ds'))
                 | None \<Rightarrow>
                     (create_simulated_discount w session_id discount_pct' code
                        expires_minutes r detected_traits, ds')))"

definition get_negotiation_info ::
  "int \<Rightarrow> string \<Rightarrow> DiscountService \<Rightarrow> NegotiationState \<times> DiscountService" where
  "get_negotiation_info now session_id ds =
     (let (negotiation, pricing) = get_negotiation now session_id (pricing_service ds)
      in (negotiation, ds\<lparr>pricing_service := pricing\<rparr>))"


section \<open>Bouncer agent (bouncer.py)\<close>

record BouncerAgent =
  ba_config :: merchant_config
  ba_session_id :: string
  conversation_history :: "message list"
  system_prompt :: string
  llm_client :: llm_client
  agent_router :: AgentRouter
  discount_service :: DiscountService
  ba_trait_detector :: TraitDetector
  pending_fact_check :: "detection option"
  last_discount_code :: "string option"

text \<open>
  The environment variables and files the constructor reads: the API keys, whether
  Composio is configured, the Shopify credentials and the persona prompt. A session
  identifier that is missing is replaced by a fresh \<open>uuid4\<close>, given as an argument.
\<close>

record settings =
  openai_api_key :: "string option"
  anthropic_api_key :: "string option"
  composio_configured :: bool
  shopify_store_domain :: "string option"
  shopify_access_token :: "string option"
  persona_prompt :: string

definition initialize_llm_client :: "settings \<Rightarrow> py_exception + llm_client" where
  "initialize_llm_client env =
     (if truthy (openai_api_key env) then Inr OpenAIClient
      else if truthy (anthropic_api_key env) then Inr AnthropicClient
      else Inl (ValueError
                  ''No LLM API key found. Set OPENAI_API_KEY or ANTHROPIC_API_KEY in .env file''))"

definition BouncerAgent_init ::
  "merchant_config \<Rightarrow> settings \<Rightarrow> string \<Rightarrow> string option \<Rightarrow> py_exception + BouncerAgent" where
  "BouncerAgent_init cfg env fresh_uuid session =
     (case initialize_llm_client env of
        Inl e \<Rightarrow> Inl e
      | Inr client \<Rightarrow>
          Inr \<lparr>ba_config = cfg,
               ba_session_id = (if truthy session then py_str session else fresh_uuid),
               conversation_history = [\<lparr>m_role = System, m_content = Text (persona_prompt env)\<rparr>],
               system_prompt = persona_prompt env,
               llm_client = client,
               agent_router = AgentRouter_init cfg (composio_configured env),
               discount_service =
                 DiscountService_init cfg (shopify_store_domain env) (shopify_access_token env),
               ba_trait_detector = TraitDetector_init cfg,
               pending_fact_check = None,
               last_discount_code = None\<rparr>)"

text \<open>
  \<open>_get_llm_response\<close>: the client with the attribute \<open>chat\<close> is the OpenAI one, the
  client with \<open>messages\<close> the Anthropic one, which gets the history without its system
  messages; any other client raises. The call to the provider may raise; a reply is
  stripped.
\<close>

definition get_llm_response :: "world \<Rightarrow> BouncerAgent \<Rightarrow> py_exception + string" where
  "get_llm_response w agent =
     (case llm_client agent of
        OpenAIClient \<Rightarrow>
          (case w_llm w (OpenAIRequest (conversation_history agent)) of
             LLMRaises e \<Rightarrow> Inl e
           | LLMReturns reply \<Rightarrow> Inr (str_strip reply))
      | AnthropicClient \<Rightarrow>
          (case w_llm w (AnthropicRequest (system_prompt agent)
                           (filter (\<lambda>msg. m_role msg \<noteq> System) (conversation_history agent))) of
             LLMRaises e \<Rightarrow> Inl e
           | LLMReturns reply \<Rightarrow> Inr (str_strip reply))
      | UnknownClient \<Rightarrow> Inl (ValueError ''Unknown LLM client type''))"

definition negotiation_keywords :: "string list" where
  "negotiation_keywords =
     [''discount'', ''deal'', ''cheaper'', ''lower price'', ''reduce'', ''haggle'',
      ''negotiate'', ''offer'', ''promo'', ''coupon'', ''code'', ''save money'',
      ''too expensive'', ''price'', ''cost'', ''afford'']"

text \<open>\<open>_detect_negotiation_intent\<close>; the result is the key \<open>should_offer_discount\<close>.\<close>

definition detect_negotiation_intent :: "string \<Rightarrow> bool" where
  "detect_negotiation_intent user_message =
     list_ex (\<lambda>keyword. str_contains keyword (str_lower user_message)) negotiation_keywords"

fun join_with :: "string \<Rightarrow> string list \<Rightarrow> string" where
  "join_with sep [] = []"
| "join_with sep [x] = x"
| "join_with sep (x # xs) = x @ sep @ join_with sep xs"

fun text_of :: "content \<Rightarrow> string" where
  "text_of (Text s) = s"
| "text_of other = []"

definition get_conversation_context :: "BouncerAgent \<Rightarrow> string" where
  "get_conversation_context agent =
     (let history = conversation_history agent;
          recent_messages =
            map (\<lambda>msg. text_of (m_content msg))
              (filter (\<lambda>msg. m_role msg = User \<or> m_role msg = Assistant)
                 (drop (length history - 6) history))
      in join_with '' '' recent_messages)"

definition is_consent_response :: "BouncerAgent \<Rightarrow> string \<Rightarrow> bool" where
  "is_consent_response agent user_message = (pending_fact_check agent \<noteq> None)"

text \<open>
  \<open>_create_discount_offer\<close>: the \<open>try\<close> around the call catches nothing in the model,
  where \<open>create_negotiation_discount\<close> returns all its failures as values.
\<close>

definition create_discount_offer ::
  "world \<Rightarrow> string option \<Rightarrow> BouncerAgent \<Rightarrow> discount_result \<times> BouncerAgent" where
  "create_discount_offer w conversation_text agent =
     (let (result, ds) =
            create_negotiation_discount w (ba_session_id agent) None None 10 1
              conversation_text (discount_service agent)
      in (result, agent\<lparr>discount_service := ds\<rparr>))"

definition append_message :: "role \<Rightarrow> content \<Rightarrow> BouncerAgent \<Rightarrow> BouncerAgent" where
  "append_message r c agent =
     agent\<lparr>conversation_history := conversation_history agent @ [\<lparr>m_role = r, m_content = c\<rparr>]\<rparr>"

text \<open>
  A call of \<open>execute_fact_check\<close> made during a turn, with its arguments. A turn
  returns, beside its result and the agent after it, the list of these calls.
\<close>

record dispatch_call =
  call_agent_type :: "agent option"
  call_query :: "string option"
  call_context :: "linkedin_info option"

type_synonym turn = "(py_exception + string \<times> string option) \<times> BouncerAgent \<times> dispatch_call list"

definition affirmative :: "string list" where
  "affirmative = [''yes'', ''y'', ''yeah'', ''sure'', ''ok'', ''okay'', ''go ahead'']"

definition handle_consent_response :: "world \<Rightarrow> string \<Rightarrow> BouncerAgent \<Rightarrow> turn" where
  "handle_consent_response w user_message agent =
     (case pending_fact_check agent of
        None \<Rightarrow> (Inr (''I don't have a pending fact-check request.'', None), agent, [])
      | Some detection \<Rightarrow>
          let user_lower = str_strip (str_lower user_message);
              consent_given = (user_lower \<in> set affirmative)
          in if consent_given then
               let agent_type = d_agent_type detection;
                   query = d_query detection;
                   context = d_extracted_info detection;
                   fact_check_result =
                     execute_fact_check (w_caps w) agent_type query context (agent_router agent);
                   call = \<lparr>call_agent_type = agent_type, call_query = query,
                           call_context = context\<rparr>;
                   fact_check_summary =
                     FactCheckSummary agent_type
                       (case fc_summary fact_check_result of
                          Some s \<Rightarrow> s | None \<Rightarrow> ''No results found'');
                   agent1 = append_message System fact_check_summary agent
               in case get_llm_response w agent1 of
                    Inl e \<Rightarrow> (Inl e, agent1, [call])
                  | Inr response \<Rightarrow>
                      (Inr (response, None),
                       (append_message Assistant (Text response) agent1)
                         \<lparr>pending_fact_check := None\<rparr>,
                       [call])
             else
               (Inr (''No problem, I won't look that up. How else can I help you?'', None),
                (append_message Assistant
                   (Text ''No problem, I won't look that up. How else can I help you?'') agent)
                  \<lparr>pending_fact_check := None\<rparr>,
                []))"

text \<open>
  The trait note of the discount context. \<open>trait_names[0]\<close> is the first character of
  the joined names, and raises \<open>IndexError\<close> when the joined names are empty.
\<close>

definition trait_note_of :: "discount_payload \<Rightarrow> py_exception + trait_note" where
  "trait_note_of discount_info =
     (let detected_traits_list = dp_detected_traits discount_info
      in if detected_traits_list \<noteq> [] then
           (case join_with '', '' detected_traits_list of
              [] \<Rightarrow> Inl IndexError
            | c # cs \<Rightarrow>
                if dp_trait_bonus_applied discount_info then
                  Inr (BonusNote [c] (dp_discount_pct discount_info)
                         (dp_base_discount_pct discount_info))
                else Inr (SkepticalNote [c]))
         else Inr NoTraitNote)"

definition consent_prompt :: "agent option \<Rightarrow> string option" where
  "consent_prompt agent_type =
     (if agent_type = Some Brave then Some ''Can I verify that on Brave search? (yes/no)''
      else if agent_type = Some LinkedIn then Some ''Can I look that up on LinkedIn? (yes/no)''
      else None)"

text \<open>
  The end of \<open>chat\<close>, from the call of the language model on (lines 128 to 147).
\<close>

definition reply_and_ask :: "world \<Rightarrow> detection \<Rightarrow> BouncerAgent \<Rightarrow> turn" where
  "reply_and_ask w detection agent =
     (case get_llm_response w agent of
        Inl e \<Rightarrow> (Inl e, agent, [])
      | Inr response \<Rightarrow>
          let (consent_request, agent1) =
                (if d_needed detection \<and> should_ask_consent (agent_router agent) detection
                 then (consent_prompt (d_agent_type detection),
                       agent\<lparr>pending_fact_check := Some detection\<rparr>)
                 else (None, agent))
          in (Inr (response, consent_request),
              append_message Assistant (Text response) agent1, []))"

definition chat :: "world \<Rightarrow> string \<Rightarrow> BouncerAgent \<Rightarrow> turn" where
  "chat w user_message agent =
     (if pending_fact_check agent \<noteq> None \<and> is_consent_response agent user_message then
        handle_consent_response w user_message agent
      else
        let should_offer_discount = detect_negotiation_intent user_message;
            agent1 = append_message User (Text user_message) agent;
            conversation_context = get_conversation_context agent1;
            detection = detect_fact_check_needed user_message conversation_context;
            conversation_text = get_conversation_context agent1;
            (detected_traits, detector) = detect_traits conversation_text (ba_trait_detector agent1);
            agent2 = agent1\<lparr>ba_trait_detector := detector\<rparr>;
            should_offer = (should_offer_discount \<and> length detected_traits > 0)
        in if should_offer then
             (case create_discount_offer w (Some conversation_text) agent2 of
                (CodeCreated discount_info, agent3) \<Rightarrow>
                  (case trait_note_of discount_info of
                     Inl e \<Rightarrow> (Inl e, agent3, [])
                   | Inr note \<Rightarrow>
                       reply_and_ask w detection
                         ((append_message System
                             (DiscountAvailable (dp_discount_code discount_info)
                                (dp_discount_pct discount_info) (dp_counter discount_info) note)
                             agent3)
                            \<lparr>last_discount_code := Some (dp_discount_code discount_info)\<rparr>))
              | (other, agent3) \<Rightarrow> reply_and_ask w detection agent3)
           else if should_offer_discount \<and> length detected_traits = 0 then
             reply_and_ask w detection (append_message System NoDiscountYet agent2)
           else reply_and_ask w detection agent2)"


section \<open>Vocabulary of the negotiation properties\<close>

text \<open>
  A client of the pricing service calls \<open>make_discount_offer\<close>, or fetches the session
  with \<open>get_negotiation\<close> and calls \<open>make_offer\<close> or \<open>get_next_offer\<close> on it
  (\<open>on_session\<close>). A reachable service state is the result of any list of such calls
  on a new service, each with the clock reading at which it runs.
\<close>

datatype pricing_op =
    MakeOffer string rat
  | GetNextOffer string "rat option"
  | MakeDiscountOffer string "rat option" rat

fun op_session :: "pricing_op \<Rightarrow> string" where
  "op_session (MakeOffer sid d) = sid"
| "op_session (GetNextOffer sid p) = sid"
| "op_session (MakeDiscountOffer sid d b) = sid"

definition on_session ::
  "int \<Rightarrow> string \<Rightarrow> (NegotiationState \<Rightarrow> offer_result \<times> NegotiationState)
     \<Rightarrow> PricingService \<Rightarrow> offer_result \<times> PricingService" where
  "on_session now session_id f svc =
     (let (negotiation, svc1) = get_negotiation now session_id svc;
          (result, negotiation') = f negotiation
      in (result, svc1\<lparr>negotiations := (negotiations svc1)(session_id \<mapsto> negotiation')\<rparr>))"

fun pricing_step :: "PricingService \<Rightarrow> int \<times> pricing_op \<Rightarrow> offer_result \<times> PricingService" where
  "pricing_step svc (now, MakeOffer sid d) = on_session now sid (make_offer now d) svc"
| "pricing_step svc (now, GetNextOffer sid p) = on_session now sid (get_next_offer now p) svc"
| "pricing_step svc (now, MakeDiscountOffer sid d b) = make_discount_offer now sid d b svc"

fun pricing_run :: "PricingService \<Rightarrow> (int \<times> pricing_op) list \<Rightarrow> PricingService" where
  "pricing_run svc [] = svc"
| "pricing_run svc (x # xs) = pricing_run (snd (pricing_step svc x)) xs"

text \<open>
  The invariant of a session under the configuration \<open>cfg\<close>: the session holds that
  configuration, allows three counters and has used at most three; it has one recorded
  offer for each counter used, numbered from 1; every recorded offer respects the
  ceiling, carries the margin \<open>100 - discount_pct\<close> and respects the floor margin; and
  the current discount is that of the most recent offer.
\<close>

definition session_invariant :: "merchant_config \<Rightarrow> NegotiationState \<Rightarrow> bool" where
  "session_invariant cfg s \<longleftrightarrow>
     config s = cfg \<and> max_counters s = 3 \<and> counter s \<le> max_counters s \<and>
     length (offers s) = counter s \<and>
     map o_counter (offers s) = [1..<Suc (counter s)] \<and>
     (\<forall>e \<in> set (offers s).
        o_discount_pct e \<le> max_discount_pct cfg \<and>
        o_margin_pct e = 100 - o_discount_pct e \<and>
        floor_margin_pct cfg \<le> o_margin_pct e) \<and>
     (offers s \<noteq> [] \<longrightarrow> current_discount_pct s = o_discount_pct (last (offers s)))"

definition service_invariant :: "PricingService \<Rightarrow> bool" where
  "service_invariant svc \<longleftrightarrow>
     (\<forall>sid s. negotiations svc sid = Some s \<longrightarrow> session_invariant (ps_config svc) s)"

text \<open>The counter of a session of the registry; a session not yet created counts 0.\<close>

definition session_counter :: "PricingService \<Rightarrow> string \<Rightarrow> nat" where
  "session_counter svc sid = (case negotiations svc sid of None \<Rightarrow> 0 | Some s \<Rightarrow> counter s)"

text \<open>
  Discounts that are not negative: in the configuration, in the arguments of a call,
  in a session and in a result.
\<close>

definition nonneg_config :: "merchant_config \<Rightarrow> bool" where
  "nonneg_config cfg \<longleftrightarrow>
     0 \<le> first_offer_pct cfg \<and> 0 \<le> counter_step_pct cfg \<and> 0 \<le> max_discount_pct cfg"

fun nonneg_opt :: "rat option \<Rightarrow> bool" where
  "nonneg_opt None = True"
| "nonneg_opt (Some d) = (0 \<le> d)"

fun nonneg_op :: "pricing_op \<Rightarrow> bool" where
  "nonneg_op (MakeOffer sid d) = (0 \<le> d)"
| "nonneg_op (GetNextOffer sid p) = nonneg_opt p"
| "nonneg_op (MakeDiscountOffer sid d b) = nonneg_opt d"

definition session_nonneg :: "NegotiationState \<Rightarrow> bool" where
  "session_nonneg s \<longleftrightarrow>
     0 \<le> current_discount_pct s \<and> list_all (\<lambda>e. 0 \<le> o_discount_pct e) (offers s)"

fun result_nonneg :: "offer_result \<Rightarrow> bool" where
  "result_nonneg (Failed e) = True"
| "result_nonneg (Offered r) = (0 \<le> r_discount_pct r)"

definition service_nonneg :: "PricingService \<Rightarrow> bool" where
  "service_nonneg svc \<longleftrightarrow>
     (\<forall>sid s. negotiations svc sid = Some s \<longrightarrow> session_nonneg s \<and> config s = ps_config svc)"

text \<open>
  The keys \<open>discount_pct\<close> and \<open>margin_pct\<close> of a result dictionary (\<open>None\<close> in a
  failure).
\<close>

fun discount_pct_of :: "offer_result \<Rightarrow> rat option" where
  "discount_pct_of (Failed e) = None"
| "discount_pct_of (Offered r) = Some (r_discount_pct r)"


text \<open>
  Two calls on the session \<open>s\<close> of a new service, and the session of the default
  configuration after three automatic offers.
\<close>

definition sample_ops :: "(int \<times> pricing_op) list" where
  "sample_ops = [(1, MakeDiscountOffer ''s'' None 2), (2, MakeOffer ''s'' 5)]"

definition exhausted_session :: NegotiationState where
  "exhausted_session =
     snd (get_next_offer 3 None (snd (get_next_offer 2 None (snd (get_next_offer 1 None
       (NegotiationState_init default_config 0))))))"


section \<open>Vocabulary of the trait properties\<close>

text \<open>
  A keyword matches a text when its lowercase form is a substring of the lowercase text.
\<close>

definition occurs_in :: "string \<Rightarrow> string \<Rightarrow> bool" where
  "occurs_in keyword text \<longleftrightarrow> (\<exists>pre post. str_lower text = pre @ str_lower keyword @ post)"

definition sample_detector :: TraitDetector where
  "sample_detector =
     \<lparr>tdr_config = default_config, tdr_detected_traits = [],
      trait_keywords =
        [(''influencer'', [''influencer'', ''followers'', ''content'', ''Instagram'']),
         (''salon'', [''salon'', ''stylist'']),
         (''vip'', [''VIP'', ''loyal''])]\<rparr>"


section \<open>Vocabulary of the router properties\<close>

text \<open>The capability a detection names is configured when its agent object exists.\<close>

fun capability_configured :: "AgentRouter \<Rightarrow> agent \<Rightarrow> bool" where
  "capability_configured router Brave = (brave_agent router \<noteq> None)"
| "capability_configured router LinkedIn = (linkedin_agent router \<noteq> None)"

text \<open>Some pattern of a family matches the lowercase message.\<close>

definition family_matches :: "regex list \<Rightarrow> string \<Rightarrow> bool" where
  "family_matches patterns user_message \<longleftrightarrow>
     list_ex (\<lambda>p. re_search True p (str_lower user_message) \<noteq> None) patterns"

definition tools_config :: merchant_config where
  "tools_config = default_config\<lparr>mc_tool_calls := Some [''brave'', ''linkedin'']\<rparr>"

definition sample_router :: AgentRouter where
  "sample_router = AgentRouter_init tools_config True"


section \<open>Vocabulary of the discount-code properties\<close>

text \<open>
  A world in which the Shopify endpoint answers every request with a user error, and a
  discount service with Shopify credentials.
\<close>

definition quiet_caps :: capabilities where
  "quiet_caps =
     \<lparr>brave_search = (\<lambda>q. \<lparr>fc_success = True, fc_summary = Some ''No results found.'',
                                fc_error = None\<rparr>),
      linkedin_search_person = (\<lambda>n c. \<lparr>fc_success = True, fc_summary = Some ''No profile found.'',
                                           fc_error = None\<rparr>),
      linkedin_search_company = (\<lambda>c. \<lparr>fc_success = True, fc_summary = Some ''No company found.'',
                                          fc_error = None\<rparr>)\<rparr>"

definition rejecting_world :: world where
  "rejecting_world =
     \<lparr>w_clock = 0, w_caps = quiet_caps,
      w_shopify = (\<lambda>q. Responded \<lparr>gq_errors = [], gq_user_errors = [''Code already exists''],
                                   gq_codes = [], gq_id = None\<rparr>),
      w_shopify_random = (\<lambda>i. i), w_local_random = (\<lambda>i. i),
      w_llm = (\<lambda>q. LLMReturns ''Prices are what they are.'')\<rparr>"





section \<open>Vocabulary of the consent properties\<close>

text \<open>
  A world in which the language model answers every request, and one in which it
  raises; the agent the constructor returns for a configuration with both tools, and
  that agent after the message \<open>I work at Acme Corp\<close>, which waits for the answer
  to its consent request.
\<close>

definition llm_answers :: "world \<Rightarrow> bool" where
  "llm_answers w \<longleftrightarrow> (\<forall>request. \<exists>reply. w_llm w request = LLMReturns reply)"

definition calm_world :: world where
  "calm_world = rejecting_world\<lparr>w_llm := (\<lambda>q. LLMReturns '' Fine. '')\<rparr>"

definition offline_world :: world where
  "offline_world = rejecting_world\<lparr>w_llm := (\<lambda>q. LLMRaises (OtherException ''Connection error.''))\<rparr>"

definition acme_pending :: detection where
  "acme_pending =
     \<lparr>d_needed = True, d_agent_type = Some LinkedIn, d_query = Some ''acme corp'',
      d_confidence = 7 / 10,
      d_extracted_info = Some \<lparr>li_name = None, li_company = Some ''acme corp'', li_title = None\<rparr>,
      d_claim = None\<rparr>"

definition sample_settings :: settings where
  "sample_settings =
     \<lparr>openai_api_key = Some ''key'', anthropic_api_key = None, composio_configured = True,
      shopify_store_domain = None, shopify_access_token = None,
      persona_prompt = ''You are the Bouncer.''\<rparr>"

definition first_agent :: BouncerAgent where
  "first_agent =
     \<lparr>ba_config = tools_config, ba_session_id = ''s'',
      conversation_history = [\<lparr>m_role = System, m_content = Text ''You are the Bouncer.''\<rparr>],
      system_prompt = ''You are the Bouncer.'', llm_client = OpenAIClient,
      agent_router = AgentRouter_init tools_config True,
      discount_service = DiscountService_init tools_config None None,
      ba_trait_detector = TraitDetector_init tools_config,
      pending_fact_check = None, last_discount_code = None\<rparr>"

definition awaiting_agent :: BouncerAgent where
  "awaiting_agent = fst (snd (chat calm_world ''I work at Acme Corp'' first_agent))"


section \<open>Negotiation engine: invariants\<close>

lemma init_invariant: "session_invariant cfg (NegotiationState_init cfg now)"
  by (simp add: session_invariant_def NegotiationState_init_def)

lemma make_offer_invariant:
  assumes "session_invariant cfg s"
  shows "session_invariant cfg (snd (make_offer now d s))"
  using assms
  by (auto simp: session_invariant_def make_offer_def Let_def)

lemma get_next_offer_invariant:
  "session_invariant cfg s \<Longrightarrow> session_invariant cfg (snd (get_next_offer now p s))"
  by (simp add: get_next_offer_def Let_def make_offer_invariant)

lemma requested_offer_invariant:
  "session_invariant cfg s \<Longrightarrow> session_invariant cfg (snd (requested_offer now d s))"
  by (simp add: requested_offer_def Let_def make_offer_invariant get_next_offer_invariant
      split: option.splits)

lemma amend_last_length: "length (amend_last d m os) = length os"
  by (simp add: amend_last_def)

lemma amend_last_counters: "map o_counter (amend_last d m os) = map o_counter os"
proof (cases os rule: rev_cases)
  case Nil
  then show ?thesis by (simp add: amend_last_def)
next
  case (snoc ys y)
  then show ?thesis by (simp add: amend_last_def)
qed

lemma amend_last_snoc:
  "amend_last d m (ys @ [y]) = ys @ [y\<lparr>o_discount_pct := d, o_margin_pct := m\<rparr>]"
  by (simp add: amend_last_def)

lemma amend_last_Nil: "amend_last d m [] = []"
  by (simp add: amend_last_def)

lemma apply_trait_bonus_invariant:
  assumes "session_invariant cfg s"
  shows "session_invariant cfg (snd (apply_trait_bonus cfg b (r, s)))"
proof (cases "offers s" rule: rev_cases)
  case Nil
  with assms show ?thesis
    by (cases r) (auto simp: apply_trait_bonus_def session_invariant_def Let_def amend_last_Nil)
next
  case (snoc ys y)
  with assms show ?thesis
    by (cases r) (auto simp: apply_trait_bonus_def session_invariant_def Let_def amend_last_snoc)
qed

lemma get_negotiation_invariant:
  assumes "\<forall>sid s. negotiations svc sid = Some s \<longrightarrow> session_invariant (ps_config svc) s"
  shows "session_invariant (ps_config svc) (fst (get_negotiation now sid svc))"
    and "ps_config (snd (get_negotiation now sid svc)) = ps_config svc"
    and "negotiations (snd (get_negotiation now sid svc)) =
           (negotiations svc)(sid \<mapsto> fst (get_negotiation now sid svc))"
  using assms
  by (auto simp: get_negotiation_def Let_def init_invariant split: option.splits)

lemma on_session_invariant:
  assumes "service_invariant svc"
    and "\<And>s. session_invariant (ps_config svc) s \<Longrightarrow> session_invariant (ps_config svc) (snd (f s))"
  shows "service_invariant (snd (on_session now sid f svc))"
    and "ps_config (snd (on_session now sid f svc)) = ps_config svc"
proof -
  have g: "session_invariant (ps_config svc) (fst (get_negotiation now sid svc))"
    using assms(1) get_negotiation_invariant(1) unfolding service_invariant_def by blast
  have c: "ps_config (snd (get_negotiation now sid svc)) = ps_config svc"
    using assms(1) get_negotiation_invariant(2) unfolding service_invariant_def by blast
  have n: "negotiations (snd (get_negotiation now sid svc)) =
           (negotiations svc)(sid \<mapsto> fst (get_negotiation now sid svc))"
    using assms(1) get_negotiation_invariant(3) unfolding service_invariant_def by blast
  show "ps_config (snd (on_session now sid f svc)) = ps_config svc"
    using c by (simp add: on_session_def Let_def split_beta)
  show "service_invariant (snd (on_session now sid f svc))"
    using assms(1) assms(2)[OF g] c n
    by (auto simp: on_session_def Let_def split_beta service_invariant_def)
qed

lemma make_discount_offer_on_session:
  "make_discount_offer now sid d b svc =
     on_session now sid (\<lambda>n. apply_trait_bonus (ps_config svc) b (requested_offer now d n)) svc"
  by (simp add: make_discount_offer_def on_session_def get_negotiation_def Let_def split: option.splits)

lemma pricing_step_invariant:
  assumes "service_invariant svc"
  shows "service_invariant (snd (pricing_step svc x))"
    and "ps_config (snd (pricing_step svc x)) = ps_config svc"
proof -
  obtain now opn where x: "x = (now, opn)" by (cases x)
  have b: "session_invariant (ps_config svc)
        (snd (apply_trait_bonus (ps_config svc) b (requested_offer now d s)))"
    if "session_invariant (ps_config svc) s" for b d s
    using apply_trait_bonus_invariant[OF requested_offer_invariant[OF that, of now d],
        of b "fst (requested_offer now d s)"]
    by simp
  show "service_invariant (snd (pricing_step svc x))"
    using assms x b
    by (cases opn)
       (simp_all add: on_session_invariant make_offer_invariant get_next_offer_invariant
          make_discount_offer_on_session)
  show "ps_config (snd (pricing_step svc x)) = ps_config svc"
    using assms x b
    by (cases opn)
       (simp_all add: on_session_invariant make_offer_invariant get_next_offer_invariant
          make_discount_offer_on_session)
qed

lemma pricing_run_invariant:
  "service_invariant svc \<Longrightarrow>
     service_invariant (pricing_run svc ops) \<and> ps_config (pricing_run svc ops) = ps_config svc"
  by (induction ops arbitrary: svc) (simp_all add: pricing_step_invariant)

lemma init_service_invariant: "service_invariant (PricingService_init cfg)"
  by (simp add: service_invariant_def PricingService_init_def)

lemma make_offer_counter:
  "counter (snd (make_offer now d s)) =
     counter s + (if success (fst (make_offer now d s)) then 1 else 0)"
  by (simp add: make_offer_def Let_def)

lemma get_next_offer_counter:
  "counter (snd (get_next_offer now p s)) =
     counter s + (if success (fst (get_next_offer now p s)) then 1 else 0)"
  by (simp add: get_next_offer_def Let_def make_offer_counter)

lemma requested_offer_counter:
  "counter (snd (requested_offer now d s)) =
     counter s + (if success (fst (requested_offer now d s)) then 1 else 0)"
  by (simp add: requested_offer_def Let_def make_offer_counter get_next_offer_counter
      split: option.splits)

lemma apply_trait_bonus_counter:
  "counter (snd (apply_trait_bonus cfg b (r, s))) = counter s"
  "success (fst (apply_trait_bonus cfg b (r, s))) = success r"
  by (cases r; simp add: apply_trait_bonus_def Let_def)+

lemma on_session_unfold:
  "on_session now sid f svc =
     (fst (f (fst (get_negotiation now sid svc))),
      (snd (get_negotiation now sid svc))
        \<lparr>negotiations := (negotiations (snd (get_negotiation now sid svc)))
           (sid \<mapsto> snd (f (fst (get_negotiation now sid svc))))\<rparr>)"
  by (simp add: on_session_def Let_def split_beta)

lemma get_negotiation_other:
  "sid' \<noteq> sid \<Longrightarrow>
     negotiations (snd (get_negotiation now sid svc)) sid' = negotiations svc sid'"
  by (simp add: get_negotiation_def Let_def split: option.splits)

lemma get_negotiation_counter:
  "counter (fst (get_negotiation now sid svc)) = session_counter svc sid"
  by (simp add: get_negotiation_def session_counter_def NegotiationState_init_def Let_def
      split: option.splits)

lemma on_session_counter:
  assumes "\<And>s. counter (snd (f s)) = counter s + (if success (fst (f s)) then 1 else 0)"
  shows "session_counter (snd (on_session now sid f svc)) sid' =
           session_counter svc sid' +
             (if sid' = sid \<and> success (fst (on_session now sid f svc)) then 1 else 0)"
proof (cases "sid' = sid")
  case True
  then show ?thesis
    by (simp add: on_session_unfold session_counter_def assms get_negotiation_counter[unfolded session_counter_def])
next
  case False
  then show ?thesis
    by (simp add: on_session_unfold session_counter_def get_negotiation_other)
qed

lemma bonus_offer_counter:
  "counter (snd (apply_trait_bonus cfg b (requested_offer now d s))) =
     counter s +
       (if success (fst (apply_trait_bonus cfg b (requested_offer now d s))) then 1 else 0)"
proof -
  obtain r s0 where e: "requested_offer now d s = (r, s0)"
    by (cases "requested_offer now d s")
  have "counter s0 = counter s + (if success r then 1 else 0)"
    using requested_offer_counter[of now d s] by (simp add: e)
  then show ?thesis
    by (simp add: e apply_trait_bonus_counter)
qed

lemma pricing_step_counter:
  "session_counter (snd (pricing_step svc x)) sid =
     session_counter svc sid +
       (if sid = op_session (snd x) \<and> success (fst (pricing_step svc x)) then 1 else 0)"
proof -
  obtain now opn where x: "x = (now, opn)" by (cases x)
  show ?thesis
  proof (cases opn)
    case (MakeOffer s d)
    have "session_counter (snd (on_session now s (make_offer now d) svc)) sid =
       session_counter svc sid +
         (if sid = s \<and> success (fst (on_session now s (make_offer now d) svc)) then 1 else 0)"
      by (rule on_session_counter) (rule make_offer_counter)
    then show ?thesis by (simp only: x MakeOffer pricing_step.simps op_session.simps snd_conv)
  next
    case (GetNextOffer s p)
    have "session_counter (snd (on_session now s (get_next_offer now p) svc)) sid =
       session_counter svc sid +
         (if sid = s \<and> success (fst (on_session now s (get_next_offer now p) svc))
          then 1 else 0)"
      by (rule on_session_counter) (rule get_next_offer_counter)
    then show ?thesis by (simp only: x GetNextOffer pricing_step.simps op_session.simps snd_conv)
  next
    case (MakeDiscountOffer s d b)
    have "session_counter (snd (on_session now s
            (\<lambda>n. apply_trait_bonus (ps_config svc) b (requested_offer now d n)) svc)) sid =
       session_counter svc sid +
         (if sid = s \<and> success (fst (on_session now s
            (\<lambda>n. apply_trait_bonus (ps_config svc) b (requested_offer now d n)) svc))
          then 1 else 0)"
      by (rule on_session_counter) (rule bonus_offer_counter)
    then show ?thesis
      by (simp only: x MakeDiscountOffer pricing_step.simps op_session.simps snd_conv
          make_discount_offer_on_session)
  qed
qed

lemma make_offer_nonneg:
  "session_nonneg s \<Longrightarrow> 0 \<le> d \<Longrightarrow>
     session_nonneg (snd (make_offer now d s)) \<and> result_nonneg (fst (make_offer now d s))"
  by (simp add: make_offer_def Let_def session_nonneg_def)

lemma get_next_offer_nonneg:
  "session_nonneg s \<Longrightarrow> nonneg_config (config s) \<Longrightarrow> nonneg_opt p \<Longrightarrow>
     session_nonneg (snd (get_next_offer now p s)) \<and> result_nonneg (fst (get_next_offer now p s))"
  unfolding get_next_offer_def Let_def
  by (rule make_offer_nonneg)
     (auto simp: nonneg_config_def session_nonneg_def split: option.splits)

lemma requested_offer_nonneg:
  "session_nonneg s \<Longrightarrow> nonneg_config (config s) \<Longrightarrow> nonneg_opt d \<Longrightarrow>
     session_nonneg (snd (requested_offer now d s)) \<and>
     result_nonneg (fst (requested_offer now d s))"
proof (cases d)
  case None
  assume a: "session_nonneg s" "nonneg_config (config s)"
  have "nonneg_opt (Some (current_discount_pct s))"
    using a(1) by (simp add: session_nonneg_def)
  with a None show ?thesis
    by (simp add: requested_offer_def Let_def get_next_offer_nonneg)
next
  case (Some a)
  assume "session_nonneg s" "nonneg_opt d"
  with Some show ?thesis
    by (simp add: requested_offer_def make_offer_nonneg)
qed

lemma apply_trait_bonus_nonneg:
  assumes "session_nonneg s" "result_nonneg r"
  shows "session_nonneg (snd (apply_trait_bonus cfg b (r, s)))"
proof (cases "offers s" rule: rev_cases)
  case Nil
  with assms show ?thesis
    by (cases r) (auto simp: apply_trait_bonus_def session_nonneg_def Let_def amend_last_Nil)
next
  case (snoc ys y)
  with assms show ?thesis
    by (cases r) (auto simp: apply_trait_bonus_def session_nonneg_def Let_def amend_last_snoc)
qed

lemma on_session_nonneg:
  assumes "service_nonneg svc"
    and "\<And>s. session_nonneg s \<Longrightarrow> config s = ps_config svc \<Longrightarrow>
           session_nonneg (snd (f s)) \<and> config (snd (f s)) = ps_config svc"
  shows "service_nonneg (snd (on_session now sid f svc))"
proof -
  have i: "session_nonneg (NegotiationState_init (ps_config svc) now)"
    "config (NegotiationState_init (ps_config svc) now) = ps_config svc"
    by (simp_all add: session_nonneg_def NegotiationState_init_def)
  have g: "session_nonneg (fst (get_negotiation now sid svc)) \<and>
           config (fst (get_negotiation now sid svc)) = ps_config svc"
    using assms(1) i
    by (simp add: get_negotiation_def service_nonneg_def Let_def split: option.splits)
  have h: "session_nonneg (snd (f (fst (get_negotiation now sid svc)))) \<and>
           config (snd (f (fst (get_negotiation now sid svc)))) = ps_config svc"
    using assms(2) g by blast
  have c: "ps_config (snd (get_negotiation now sid svc)) = ps_config svc"
    by (simp add: get_negotiation_def Let_def split: option.splits)
  show ?thesis
    unfolding service_nonneg_def
  proof (intro allI impI)
    fix sid' s
    assume a: "negotiations (snd (on_session now sid f svc)) sid' = Some s"
    show "session_nonneg s \<and> config s = ps_config (snd (on_session now sid f svc))"
    proof (cases "sid' = sid")
      case True
      with a h c show ?thesis by (simp add: on_session_unfold)
    next
      case False
      with a have "negotiations svc sid' = Some s"
        by (simp add: on_session_unfold get_negotiation_other)
      with assms(1) c show ?thesis
        by (simp add: service_nonneg_def on_session_unfold)
    qed
  qed
qed

lemma make_offer_config: "config (snd (make_offer now d s)) = config s"
  by (simp add: make_offer_def Let_def)

lemma get_next_offer_config: "config (snd (get_next_offer now p s)) = config s"
  by (simp add: get_next_offer_def Let_def make_offer_config)

lemma requested_offer_config: "config (snd (requested_offer now d s)) = config s"
  by (simp add: requested_offer_def Let_def make_offer_config get_next_offer_config
      split: option.splits)

lemma apply_trait_bonus_config: "config (snd (apply_trait_bonus cfg b (r, s))) = config s"
  by (cases r) (simp_all add: apply_trait_bonus_def Let_def)

lemma bonus_offer_nonneg:
  assumes "session_nonneg s" and "config s = cfg" and "nonneg_config cfg" and "nonneg_opt d"
  shows "session_nonneg (snd (apply_trait_bonus cfg b (requested_offer now d s))) \<and>
         config (snd (apply_trait_bonus cfg b (requested_offer now d s))) = cfg"
proof -
  obtain r s0 where e: "requested_offer now d s = (r, s0)"
    by (cases "requested_offer now d s")
  have "session_nonneg s0 \<and> result_nonneg r"
    using requested_offer_nonneg[of s d now] assms by (simp add: e)
  moreover have "config s0 = cfg"
    using requested_offer_config[of now d s] assms(2) by (simp add: e)
  ultimately show ?thesis
    by (simp add: e apply_trait_bonus_nonneg apply_trait_bonus_config)
qed

lemma pricing_step_nonneg:
  assumes "service_nonneg svc" "nonneg_config (ps_config svc)" "nonneg_op (snd x)"
  shows "service_nonneg (snd (pricing_step svc x))"
proof -
  obtain now opn where x: "x = (now, opn)" by (cases x)
  show ?thesis
  proof (cases opn)
    case (MakeOffer sid d)
    with assms(3) x have d: "0 \<le> d" by simp
    have "service_nonneg (snd (on_session now sid (make_offer now d) svc))"
      by (rule on_session_nonneg[OF assms(1)]) (simp add: make_offer_nonneg d make_offer_config)
    then show ?thesis by (simp only: x MakeOffer pricing_step.simps)
  next
    case (GetNextOffer sid p)
    with assms(3) x have p: "nonneg_opt p" by simp
    have "service_nonneg (snd (on_session now sid (get_next_offer now p) svc))"
      by (rule on_session_nonneg[OF assms(1)])
         (simp add: get_next_offer_nonneg p assms(2) get_next_offer_config)
    then show ?thesis by (simp only: x GetNextOffer pricing_step.simps)
  next
    case (MakeDiscountOffer sid d b)
    with assms(3) x have d: "nonneg_opt d" by simp
    have "service_nonneg (snd (on_session now sid
            (\<lambda>n. apply_trait_bonus (ps_config svc) b (requested_offer now d n)) svc))"
      by (rule on_session_nonneg[OF assms(1)]) (rule bonus_offer_nonneg[OF _ _ assms(2) d])
    then show ?thesis
      by (simp only: x MakeDiscountOffer pricing_step.simps make_discount_offer_on_session)
  qed
qed

lemma pricing_run_nonneg:
  "service_nonneg svc \<Longrightarrow> service_invariant svc \<Longrightarrow> nonneg_config (ps_config svc) \<Longrightarrow>
   list_all (\<lambda>x. nonneg_op (snd x)) ops \<Longrightarrow> service_nonneg (pricing_run svc ops)"
  by (induction ops arbitrary: svc) (simp_all add: pricing_step_nonneg pricing_step_invariant)

lemma init_service_nonneg: "service_nonneg (PricingService_init cfg)"
  by (simp add: service_nonneg_def PricingService_init_def)

text \<open>
  Claim C1, as amended. In every state of the pricing service reached by any list of
  \<open>make_offer\<close>, \<open>get_next_offer\<close> and \<open>make_discount_offer\<close> calls (the last one
  with any trait bonus), every session satisfies \<open>session_invariant\<close>: at most
  \<open>max_counters = 3\<close> offers, \<open>len(offers) = counter\<close>, the recorded offers numbered
  \<open>1, 2, \<dots>\<close>, and for each of them \<open>discount_pct \<le> max_discount_pct\<close> and
  \<open>margin_pct = 100 - discount_pct \<ge> floor_margin_pct\<close>, the current discount being
  that of the last offer. Every further call raises the counter of its session by
  exactly one when it succeeds and by nothing when it fails, and leaves the counter of
  every other session alone. The lower bound \<open>0 \<le> discount_pct\<close> holds when no call
  asks for a negative discount and the configured first offer, step and ceiling are
  not negative.
\<close>

theorem negotiation_invariants_reachable:
  "(\<forall>sid s. negotiations (pricing_run (PricingService_init cfg) ops) sid = Some s
       \<longrightarrow> session_invariant cfg s) \<and>
   (\<forall>x sid. session_counter (snd (pricing_step (pricing_run (PricingService_init cfg) ops) x)) sid =
       session_counter (pricing_run (PricingService_init cfg) ops) sid +
         (if sid = op_session (snd x) \<and>
             success (fst (pricing_step (pricing_run (PricingService_init cfg) ops) x))
          then 1 else 0)) \<and>
   (nonneg_config cfg \<and> list_all (\<lambda>x. nonneg_op (snd x)) ops \<longrightarrow>
      (\<forall>sid s. negotiations (pricing_run (PricingService_init cfg) ops) sid = Some s
         \<longrightarrow> session_nonneg s))"
proof (intro conjI)
  have inv: "service_invariant (pricing_run (PricingService_init cfg) ops)"
    and cf: "ps_config (pricing_run (PricingService_init cfg) ops) = cfg"
    using pricing_run_invariant[OF init_service_invariant, of cfg ops]
    by (simp_all add: PricingService_init_def)
  show "\<forall>sid s. negotiations (pricing_run (PricingService_init cfg) ops) sid = Some s
       \<longrightarrow> session_invariant cfg s"
    using inv cf by (simp add: service_invariant_def)
  show "\<forall>x sid. session_counter (snd (pricing_step (pricing_run (PricingService_init cfg) ops) x)) sid =
       session_counter (pricing_run (PricingService_init cfg) ops) sid +
         (if sid = op_session (snd x) \<and>
             success (fst (pricing_step (pricing_run (PricingService_init cfg) ops) x))
          then 1 else 0)"
    using pricing_step_counter by blast
  show "nonneg_config cfg \<and> list_all (\<lambda>x. nonneg_op (snd x)) ops \<longrightarrow>
      (\<forall>sid s. negotiations (pricing_run (PricingService_init cfg) ops) sid = Some s
         \<longrightarrow> session_nonneg s)"
  proof (intro impI)
    assume a: "nonneg_config cfg \<and> list_all (\<lambda>x. nonneg_op (snd x)) ops"
    have "service_nonneg (pricing_run (PricingService_init cfg) ops)"
      using a pricing_run_nonneg[OF init_service_nonneg init_service_invariant, of cfg ops]
      by (simp add: PricingService_init_def)
    then show "\<forall>sid s. negotiations (pricing_run (PricingService_init cfg) ops) sid = Some s
         \<longrightarrow> session_nonneg s"
      by (simp add: service_nonneg_def)
  qed
qed

lemmas pricing_eval =
  on_session_def make_discount_offer_def
  get_negotiation_def requested_offer_def apply_trait_bonus_def amend_last_def
  get_next_offer_def make_offer_def NegotiationState_init_def PricingService_init_def
  default_config_def max_discount_pct_def floor_margin_pct_def first_offer_pct_def
  counter_step_pct_def Let_def

lemma sample_run:
  "negotiations (pricing_run (PricingService_init default_config) sample_ops) ''s'' =
     Some \<lparr>config = default_config, counter = 2, max_counters = 3, current_discount_pct = 5,
       offers = [\<lparr>o_counter = 1, o_discount_pct = 10, o_margin_pct = 90, o_timestamp = 1\<rparr>,
                 \<lparr>o_counter = 2, o_discount_pct = 5, o_margin_pct = 95, o_timestamp = 2\<rparr>],
       started_at = 1\<rparr>"
  unfolding sample_ops_def
  by (simp add: pricing_eval)

text \<open>
  The default configuration, after an automatic offer with a trait bonus of 2 and a
  requested offer of 5 percent: the session satisfies the invariant, its discounts are
  not negative, and a third offer raises its counter to 3.
\<close>

theorem negotiation_invariants_reachable_witness:
  "session_invariant default_config
     \<lparr>config = default_config, counter = 2, max_counters = 3, current_discount_pct = 5,
       offers = [\<lparr>o_counter = 1, o_discount_pct = 10, o_margin_pct = 90, o_timestamp = 1\<rparr>,
                 \<lparr>o_counter = 2, o_discount_pct = 5, o_margin_pct = 95, o_timestamp = 2\<rparr>],
       started_at = 1\<rparr> \<and>
   session_nonneg
     \<lparr>config = default_config, counter = 2, max_counters = 3, current_discount_pct = 5,
       offers = [\<lparr>o_counter = 1, o_discount_pct = 10, o_margin_pct = 90, o_timestamp = 1\<rparr>,
                 \<lparr>o_counter = 2, o_discount_pct = 5, o_margin_pct = 95, o_timestamp = 2\<rparr>],
       started_at = 1\<rparr> \<and>
   session_counter (snd (pricing_step (pricing_run (PricingService_init default_config) sample_ops)
       (3, GetNextOffer ''s'' None))) ''s'' = 3"
proof -
  have nn: "nonneg_config default_config \<and> list_all (\<lambda>x. nonneg_op (snd x)) sample_ops"
    by (simp add: sample_ops_def nonneg_config_def pricing_eval)
  have sc: "session_counter (pricing_run (PricingService_init default_config) sample_ops) ''s'' = 2"
    by (simp add: session_counter_def sample_run)
  have su: "success (fst (pricing_step (pricing_run (PricingService_init default_config) sample_ops)
       (3, GetNextOffer ''s'' None)))"
    unfolding sample_ops_def by (simp add: pricing_eval)
  note t = negotiation_invariants_reachable[of default_config sample_ops]
  have a: "session_invariant default_config
     \<lparr>config = default_config, counter = 2, max_counters = 3, current_discount_pct = 5,
       offers = [\<lparr>o_counter = 1, o_discount_pct = 10, o_margin_pct = 90, o_timestamp = 1\<rparr>,
                 \<lparr>o_counter = 2, o_discount_pct = 5, o_margin_pct = 95, o_timestamp = 2\<rparr>],
       started_at = 1\<rparr>"
    using t sample_run by blast
  have "session_counter (snd (pricing_step (pricing_run (PricingService_init default_config) sample_ops)
       (3, GetNextOffer ''s'' None))) ''s'' =
     session_counter (pricing_run (PricingService_init default_config) sample_ops) ''s'' +
       (if ''s'' = op_session (snd (3::int, GetNextOffer ''s'' None)) \<and>
           success (fst (pricing_step (pricing_run (PricingService_init default_config) sample_ops)
             (3, GetNextOffer ''s'' None)))
        then 1 else 0)"
    using t by blast
  with sc su have b: "session_counter (snd (pricing_step
       (pricing_run (PricingService_init default_config) sample_ops)
       (3, GetNextOffer ''s'' None))) ''s'' = 3"
    by (simp del: pricing_step.simps)
  have c: "session_nonneg
     \<lparr>config = default_config, counter = 2, max_counters = 3, current_discount_pct = 5,
       offers = [\<lparr>o_counter = 1, o_discount_pct = 10, o_margin_pct = 90, o_timestamp = 1\<rparr>,
                 \<lparr>o_counter = 2, o_discount_pct = 5, o_margin_pct = 95, o_timestamp = 2\<rparr>],
       started_at = 1\<rparr>"
    using t nn sample_run by blast
  from a b c show ?thesis by blast
qed

text \<open>
  Claim C1 as stated fails: \<open>make_offer\<close> has no lower bound, so a first offer of
  \<open>-5\<close> percent succeeds and the session holds a negative discount.
\<close>

theorem negative_discount_counterexample:
  "map_option (\<lambda>s. (counter s, current_discount_pct s, map o_discount_pct (offers s)))
     (negotiations (pricing_run (PricingService_init default_config) [(1, MakeOffer ''s'' (- 5))])
        ''s'') = Some (1, - 5, [- 5])"
  by (simp add: pricing_eval)

section \<open>Negotiation engine: validation order of make\_offer\<close>

lemma exhausted_session_eq:
  "exhausted_session =
     \<lparr>config = default_config, counter = 3, max_counters = 3, current_discount_pct = 14,
       offers = [\<lparr>o_counter = 1, o_discount_pct = 8, o_margin_pct = 92, o_timestamp = 1\<rparr>,
                 \<lparr>o_counter = 2, o_discount_pct = 11, o_margin_pct = 89, o_timestamp = 2\<rparr>,
                 \<lparr>o_counter = 3, o_discount_pct = 14, o_margin_pct = 86, o_timestamp = 3\<rparr>],
       started_at = 0\<rparr>"
  by (simp add: exhausted_session_def pricing_eval)

text \<open>
  Claim C2 as stated fails in its last part: on a session whose three counters are
  used, a fourth \<open>make_offer\<close> above the ceiling is refused by the ceiling check, which
  comes first, and not with the counter-exhaustion error.
\<close>

theorem fourth_offer_above_ceiling_counterexample:
  "counter exhausted_session = 3 \<and> max_counters exhausted_session = 3 \<and>
   make_offer 4 25 exhausted_session = (Failed (ExceedsMaximum 25 20), exhausted_session) \<and>
   fst (make_offer 4 25 exhausted_session) \<noteq> Failed (CountersReached 3)"
  by (simp add: exhausted_session_eq make_offer_def max_discount_pct_def default_config_def)

text \<open>
  Claim C2, as amended. \<open>make_offer\<close> checks the ceiling, then the counter, then the
  floor margin, and the first check that fails decides the error returned; an offer
  that passes all three succeeds. A failed call returns the session unchanged (counter,
  current discount and offers included). On a session whose counter has reached
  \<open>max_counters\<close> every call fails and changes nothing: with the counter-exhaustion
  error when the discount respects the ceiling, with the ceiling error otherwise.
\<close>

theorem make_offer_validation_order:
  "(max_discount_pct (config s) < d \<longrightarrow>
      make_offer now d s = (Failed (ExceedsMaximum d (max_discount_pct (config s))), s)) \<and>
   (d \<le> max_discount_pct (config s) \<and> max_counters s \<le> counter s \<longrightarrow>
      make_offer now d s = (Failed (CountersReached (max_counters s)), s)) \<and>
   (d \<le> max_discount_pct (config s) \<and> counter s < max_counters s \<and>
    100 - d < floor_margin_pct (config s) \<longrightarrow>
      make_offer now d s = (Failed (BelowFloor d (100 - d) (floor_margin_pct (config s))), s)) \<and>
   (d \<le> max_discount_pct (config s) \<and> counter s < max_counters s \<and>
    floor_margin_pct (config s) \<le> 100 - d \<longrightarrow>
      success (fst (make_offer now d s))) \<and>
   (\<not> success (fst (make_offer now d s)) \<longrightarrow> snd (make_offer now d s) = s) \<and>
   (counter s = max_counters s \<longrightarrow>
      \<not> success (fst (make_offer now d s)) \<and> snd (make_offer now d s) = s \<and>
      fst (make_offer now d s) =
        (if d \<le> max_discount_pct (config s) then Failed (CountersReached (max_counters s))
         else Failed (ExceedsMaximum d (max_discount_pct (config s)))))"
  by (simp add: make_offer_def Let_def)

text \<open>
  One call for each outcome: a fourth offer, an offer below a floor margin of 95, an
  offer above the ceiling, and an accepted offer.
\<close>

theorem make_offer_validation_order_witness:
  "make_offer 4 14 exhausted_session = (Failed (CountersReached 3), exhausted_session) \<and>
   make_offer 1 10 (NegotiationState_init (default_config\<lparr>mc_floor_margin_pct := Some 95\<rparr>) 0) =
     (Failed (BelowFloor 10 90 95),
      NegotiationState_init (default_config\<lparr>mc_floor_margin_pct := Some 95\<rparr>) 0) \<and>
   make_offer 1 21 (NegotiationState_init default_config 0) =
     (Failed (ExceedsMaximum 21 20), NegotiationState_init default_config 0) \<and>
   success (fst (make_offer 1 20 (NegotiationState_init default_config 0)))"
proof -
  have c: "config exhausted_session = default_config" "counter exhausted_session = 3"
    "max_counters exhausted_session = 3"
    by (simp_all add: exhausted_session_eq)
  have d: "max_discount_pct default_config = 20" "floor_margin_pct default_config = 18"
    "max_discount_pct (default_config\<lparr>mc_floor_margin_pct := Some 95\<rparr>) = 20"
    "floor_margin_pct (default_config\<lparr>mc_floor_margin_pct := Some 95\<rparr>) = 95"
    by (simp_all add: max_discount_pct_def floor_margin_pct_def default_config_def)
  have i: "config (NegotiationState_init cfg 0) = cfg"
    "counter (NegotiationState_init cfg 0) = 0"
    "max_counters (NegotiationState_init cfg 0) = 3" for cfg
    by (simp_all add: NegotiationState_init_def)
  show ?thesis
    using make_offer_validation_order[of exhausted_session 14 4]
      make_offer_validation_order[of
        "NegotiationState_init (default_config\<lparr>mc_floor_margin_pct := Some 95\<rparr>) 0" 10 1]
      make_offer_validation_order[of "NegotiationState_init default_config 0" 21 1]
      make_offer_validation_order[of "NegotiationState_init default_config 0" 20 1]
    by (simp add: c d i)
qed

section \<open>Negotiation engine: trait bonus\<close>





section \<open>Negotiation engine: automatic escalation\<close>

text \<open>
  Claim C7. With \<open>first_offer_pct = 8\<close>, \<open>counter_step_pct = 3\<close>,
  \<open>max_discount_pct = 20\<close> and a floor margin of at most 86, three successive calls of
  \<open>get_next_offer\<close> on a fresh session succeed with discounts 8, 11 and 14; so do
  three calls of \<open>make_discount_offer\<close> without a requested discount and without bonus.
\<close>

theorem auto_escalation_sequence:
  assumes "first_offer_pct cfg = 8" and "counter_step_pct cfg = 3"
    and "max_discount_pct cfg = 20" and "floor_margin_pct cfg \<le> 86"
  shows "(let (r1, s1) = get_next_offer t1 None (NegotiationState_init cfg t0);
              (r2, s2) = get_next_offer t2 None s1;
              (r3, s3) = get_next_offer t3 None s2
          in map discount_pct_of [r1, r2, r3] = [Some 8, Some 11, Some 14] \<and>
             map o_discount_pct (offers s3) = [8, 11, 14] \<and> counter s3 = 3) \<and>
         (let (r1, v1) = make_discount_offer t1 sid None 0 (PricingService_init cfg);
              (r2, v2) = make_discount_offer t2 sid None 0 v1;
              (r3, v3) = make_discount_offer t3 sid None 0 v2
          in map discount_pct_of [r1, r2, r3] = [Some 8, Some 11, Some 14] \<and>
             map_option (map o_discount_pct \<circ> offers) (negotiations v3 sid) = Some [8, 11, 14])"
proof -
  have f: "\<not> 92 < floor_margin_pct cfg" "\<not> 89 < floor_margin_pct cfg"
    "\<not> 86 < floor_margin_pct cfg"
    using assms(4) by simp_all
  have a: "(let (r1, s1) = get_next_offer t1 None (NegotiationState_init cfg t0);
              (r2, s2) = get_next_offer t2 None s1;
              (r3, s3) = get_next_offer t3 None s2
          in map discount_pct_of [r1, r2, r3] = [Some 8, Some 11, Some 14] \<and>
             map o_discount_pct (offers s3) = [8, 11, 14] \<and> counter s3 = 3)"
    by (simp add: get_next_offer_def make_offer_def NegotiationState_init_def Let_def
        assms(1,2,3) f)
  have b: "(let (r1, v1) = make_discount_offer t1 sid None 0 (PricingService_init cfg);
              (r2, v2) = make_discount_offer t2 sid None 0 v1;
              (r3, v3) = make_discount_offer t3 sid None 0 v2
          in map discount_pct_of [r1, r2, r3] = [Some 8, Some 11, Some 14] \<and>
             map_option (map o_discount_pct \<circ> offers) (negotiations v3 sid) = Some [8, 11, 14])"
    by (simp add: make_discount_offer_def get_negotiation_def requested_offer_def
        apply_trait_bonus_def PricingService_init_def
        get_next_offer_def make_offer_def NegotiationState_init_def Let_def
        assms(1,2,3) f)
  from a b show ?thesis by blast
qed

text \<open>The default configuration has these values.\<close>

theorem auto_escalation_sequence_witness:
  "map (\<lambda>r. discount_pct_of r)
     [fst (get_next_offer 1 None (NegotiationState_init default_config 0)),
      fst (get_next_offer 2 None (snd (get_next_offer 1 None (NegotiationState_init default_config 0)))),
      fst (get_next_offer 3 None (snd (get_next_offer 2 None
         (snd (get_next_offer 1 None (NegotiationState_init default_config 0))))))] =
   [Some 8, Some 11, Some 14]"
proof -
  have d: "first_offer_pct default_config = 8" "counter_step_pct default_config = 3"
    "max_discount_pct default_config = 20" "floor_margin_pct default_config \<le> 86"
    by (simp_all add: first_offer_pct_def counter_step_pct_def max_discount_pct_def
        floor_margin_pct_def default_config_def)
  from auto_escalation_sequence[OF d, of 1 0 2 3 "''s''"] show ?thesis
    by (simp add: Let_def split_beta)
qed

section \<open>Trait detector: scores and order\<close>

lemma str_contains_iff: "str_contains sub s \<longleftrightarrow> (\<exists>pre post. s = pre @ sub @ post)"
proof (induction s)
  case Nil
  then show ?case by auto
next
  case (Cons c cs)
  show ?case
  proof
    assume "str_contains sub (c # cs)"
    then consider "take (length sub) (c # cs) = sub" | "str_contains sub cs" by auto
    then show "\<exists>pre post. c # cs = pre @ sub @ post"
    proof cases
      case 1
      then have "c # cs = [] @ sub @ drop (length sub) (c # cs)"
        by (metis append_Nil append_take_drop_id)
      then show ?thesis by blast
    next
      case 2
      with Cons.IH obtain pre post where "cs = pre @ sub @ post" by blast
      then have "c # cs = (c # pre) @ sub @ post" by simp
      then show ?thesis by blast
    qed
  next
    assume "\<exists>pre post. c # cs = pre @ sub @ post"
    then obtain pre post where e: "c # cs = pre @ sub @ post" by blast
    show "str_contains sub (c # cs)"
    proof (cases "pre = []")
      case True
      with e have "take (length sub) (c # cs) = sub" by simp
      then show ?thesis by simp
    next
      case False
      then obtain p ps where "pre = p # ps" by (cases pre) auto
      with e have "cs = ps @ sub @ post" by simp
      with Cons.IH have "str_contains sub cs" by blast
      then show ?thesis by simp
    qed
  qed
qed

lemma occurs_in_code: "occurs_in keyword text = str_contains (str_lower keyword) (str_lower text)"
  by (simp add: occurs_in_def str_contains_iff)

lemma count_matches_occurs:
  "count_matches (str_lower text) keywords = length (filter (\<lambda>keyword. occurs_in keyword text) keywords)"
  by (simp add: count_matches_def occurs_in_code)

lemma scored_catalog:
  "List.map_filter (score_trait (str_lower text)) catalog =
     map (\<lambda>(name, kws).
            \<lparr>td_trait = name,
             td_confidence =
               min (of_nat (length (filter (\<lambda>kw. occurs_in kw text) kws)) / of_nat (length kws) * 2) 1,
             td_matches = length (filter (\<lambda>kw. occurs_in kw text) kws)\<rparr>)
       (filter (\<lambda>(name, kws). 0 < length (filter (\<lambda>kw. occurs_in kw text) kws)) catalog)"
proof (induction catalog)
  case Nil
  then show ?case by (simp add: map_filter_simps)
next
  case (Cons e es)
  obtain name kws where e: "e = (name, kws)" by (cases e)
  show ?case
    using Cons.IH
    by (simp add: e map_filter_simps score_trait_def count_matches_occurs Let_def)
qed

lemma sort_by_confidence_sorted:
  "sorted_wrt (\<lambda>a b. td_confidence b \<le> td_confidence a) (sort_by_confidence xs)"
proof -
  have "sorted (map (\<lambda>x. - td_confidence x) (sort_by_confidence xs))"
    unfolding sort_by_confidence_def by (rule sorted_sort_key)
  then show ?thesis
    by (simp add: sorted_map) 
qed

lemma sort_by_confidence_stable:
  "filter (\<lambda>d. td_confidence d = c) (sort_by_confidence xs) = filter (\<lambda>d. td_confidence d = c) xs"
proof -
  have "filter (\<lambda>d. - td_confidence d = - c) (sort_key (\<lambda>x. - td_confidence x) xs) =
        filter (\<lambda>d. - td_confidence d = - c) xs"
    by (rule sort_key_stable)
  then show ?thesis by (simp add: sort_by_confidence_def)
qed

lemma sort_by_confidence_mset: "mset (sort_by_confidence xs) = mset xs"
  by (simp add: sort_by_confidence_def)


lemma sample_detect:
  "fst (detect_traits ''I am a Stylist with many followers, vip'' sample_detector) =
   [\<lparr>td_trait = ''salon'', td_confidence = 1, td_matches = 1\<rparr>,
    \<lparr>td_trait = ''vip'', td_confidence = 1, td_matches = 1\<rparr>,
    \<lparr>td_trait = ''influencer'', td_confidence = 1 / 2, td_matches = 1\<rparr>]"
  by code_simp


text \<open>
  Claim C9. \<open>detect_traits\<close> returns, for the catalog entries with at least one matching
  keyword and only for them, the trait name, the number \<open>m\<close> of keywords of the entry
  that occur in the text regardless of case, and the confidence
  \<open>min (m / total_keywords * 2) 1\<close>. The result is sorted by descending confidence, and
  detections of equal confidence keep the order of the catalog. The result depends
  on the text and the catalog only: a detector with the same catalog and any
  other remembered state returns the same list.
\<close>

theorem detect_traits_scores_sorted:
  "(let result = fst (detect_traits text td);
        m = (\<lambda>kws. length (filter (\<lambda>kw. occurs_in kw text) kws));
        scored = map (\<lambda>(name, kws).
                        \<lparr>td_trait = name,
                         td_confidence = min (of_nat (m kws) / of_nat (length kws) * 2) 1,
                         td_matches = m kws\<rparr>)
                   (filter (\<lambda>(name, kws). 0 < m kws) (trait_keywords td))
    in mset result = mset scored \<and>
       sorted_wrt (\<lambda>a b. td_confidence b \<le> td_confidence a) result \<and>
       (\<forall>c. filter (\<lambda>d. td_confidence d = c) result = filter (\<lambda>d. td_confidence d = c) scored) \<and>
       tdr_detected_traits (snd (detect_traits text td)) = map td_trait result \<and>
       (\<forall>td'. trait_keywords td' = trait_keywords td \<longrightarrow>
              fst (detect_traits text td') = result))"
  unfolding Let_def
proof (intro conjI allI impI)
  let ?scored = "List.map_filter (score_trait (str_lower text)) (trait_keywords td)"
  have r: "fst (detect_traits text td) = sort_by_confidence ?scored"
    by (simp add: detect_traits_def Let_def)
  show "mset (fst (detect_traits text td)) =
    mset (map (\<lambda>(name, kws).
            \<lparr>td_trait = name,
             td_confidence =
               min (of_nat (length (filter (\<lambda>kw. occurs_in kw text) kws)) / of_nat (length kws) * 2) 1,
             td_matches = length (filter (\<lambda>kw. occurs_in kw text) kws)\<rparr>)
       (filter (\<lambda>(name, kws). 0 < length (filter (\<lambda>kw. occurs_in kw text) kws)) (trait_keywords td)))"
    by (simp only: r sort_by_confidence_mset scored_catalog)
  show "sorted_wrt (\<lambda>a b. td_confidence b \<le> td_confidence a) (fst (detect_traits text td))"
    by (simp only: r sort_by_confidence_sorted)
  show "filter (\<lambda>d. td_confidence d = c) (fst (detect_traits text td)) =
    filter (\<lambda>d. td_confidence d = c)
      (map (\<lambda>(name, kws).
            \<lparr>td_trait = name,
             td_confidence =
               min (of_nat (length (filter (\<lambda>kw. occurs_in kw text) kws)) / of_nat (length kws) * 2) 1,
             td_matches = length (filter (\<lambda>kw. occurs_in kw text) kws)\<rparr>)
       (filter (\<lambda>(name, kws). 0 < length (filter (\<lambda>kw. occurs_in kw text) kws)) (trait_keywords td)))" for c
    by (simp only: r sort_by_confidence_stable scored_catalog)
  show "tdr_detected_traits (snd (detect_traits text td)) = map td_trait (fst (detect_traits text td))"
    by (simp add: detect_traits_def Let_def)
  show "fst (detect_traits text td') = fst (detect_traits text td)"
    if "trait_keywords td' = trait_keywords td" for td'
    using that by (simp add: detect_traits_def Let_def)
qed

text \<open>
  A catalog of three traits: two detections tie at confidence 1 and keep the catalog
  order; a detector that remembers other traits returns the same list.
\<close>

theorem detect_traits_scores_sorted_witness:
  "fst (detect_traits ''I am a Stylist with many followers, vip''
          (sample_detector\<lparr>tdr_detected_traits := [''salon'']\<rparr>)) =
   [\<lparr>td_trait = ''salon'', td_confidence = 1, td_matches = 1\<rparr>,
    \<lparr>td_trait = ''vip'', td_confidence = 1, td_matches = 1\<rparr>,
    \<lparr>td_trait = ''influencer'', td_confidence = 1 / 2, td_matches = 1\<rparr>]"
proof -
  have k: "trait_keywords (sample_detector\<lparr>tdr_detected_traits := [''salon'']\<rparr>) =
           trait_keywords sample_detector"
    by simp
  from detect_traits_scores_sorted[of "''I am a Stylist with many followers, vip''" sample_detector]
  have "fst (detect_traits ''I am a Stylist with many followers, vip''
          (sample_detector\<lparr>tdr_detected_traits := [''salon'']\<rparr>)) =
        fst (detect_traits ''I am a Stylist with many followers, vip'' sample_detector)"
    unfolding Let_def using k by blast
  then show ?thesis by (simp only: sample_detect)
qed

section \<open>Fact-check router: classification and consent gate\<close>

lemma first_match_exists:
  "first_match ic ps s \<noteq> None \<longleftrightarrow> list_ex (\<lambda>p. re_search ic p s \<noteq> None) ps"
  by (induction ps) (auto split: option.splits)

lemma family_matches_first:
  "family_matches ps msg = (first_match True ps (str_lower msg) \<noteq> None)"
  unfolding family_matches_def by (rule first_match_exists[symmetric])

lemma detect_linkedin:
  assumes "family_matches linkedin_patterns msg"
  shows "d_needed (detect_fact_check_needed msg ctx) \<and>
         d_agent_type (detect_fact_check_needed msg ctx) = Some LinkedIn \<and>
         d_confidence (detect_fact_check_needed msg ctx) = 7 / 10 \<and>
         d_extracted_info (detect_fact_check_needed msg ctx) = Some (extract_linkedin_info msg)"
  using assms
  by (auto simp: family_matches_first detect_fact_check_needed_def Let_def split: option.splits)

lemma detect_brave:
  assumes "\<not> family_matches linkedin_patterns msg" "family_matches brave_patterns msg"
  shows "detect_fact_check_needed msg ctx =
           \<lparr>d_needed = True, d_agent_type = Some Brave, d_query = Some msg, d_confidence = 6 / 10,
            d_extracted_info = None, d_claim = Some msg\<rparr>"
  using assms
  by (auto simp: family_matches_first detect_fact_check_needed_def Let_def split: option.splits)

lemma detect_fallback:
  assumes "\<not> family_matches linkedin_patterns msg" "\<not> family_matches brave_patterns msg"
    "family_matches fact_check_patterns msg"
  shows "detect_fact_check_needed msg ctx =
           \<lparr>d_needed = True, d_agent_type = Some Brave, d_query = Some msg, d_confidence = 5 / 10,
            d_extracted_info = None, d_claim = Some msg\<rparr>"
  using assms
  by (auto simp: family_matches_first detect_fact_check_needed_def Let_def split: option.splits)

lemma detect_none:
  assumes "\<not> family_matches linkedin_patterns msg" "\<not> family_matches brave_patterns msg"
    "\<not> family_matches fact_check_patterns msg"
  shows "detect_fact_check_needed msg ctx =
           \<lparr>d_needed = False, d_agent_type = None, d_query = None, d_confidence = 0,
            d_extracted_info = None, d_claim = None\<rparr>"
  using assms
  by (auto simp: family_matches_first detect_fact_check_needed_def Let_def split: option.splits)

lemma acme_detection:
  "detect_fact_check_needed ''I work at Acme Corp'' ctx =
     \<lparr>d_needed = True, d_agent_type = Some LinkedIn, d_query = Some ''acme corp'',
      d_confidence = 7 / 10,
      d_extracted_info = Some \<lparr>li_name = None, li_company = Some ''acme corp'', li_title = None\<rparr>,
      d_claim = None\<rparr>"
  by code_simp

lemma report_detection:
  "detect_fact_check_needed ''According to a recent report, X is true'' ctx =
     \<lparr>d_needed = True, d_agent_type = Some Brave,
      d_query = Some ''According to a recent report, X is true'', d_confidence = 6 / 10,
      d_extracted_info = None, d_claim = Some ''According to a recent report, X is true''\<rparr>"
  by code_simp

text \<open>
  Claim C5. The classifier tries the directory-lookup patterns first, then the
  verification patterns, then the generic assertion patterns; the first family with a
  pattern that matches the lowercase message decides the detection, with the fixed
  confidence of the family (0.7 with agent LinkedIn, 0.6 and 0.5 with agent Brave),
  and a message that no family matches gives \<open>needed = False\<close>. The two messages of
  the specification give the detections it states.
\<close>

theorem detection_family_order:
  "(family_matches linkedin_patterns msg \<longrightarrow>
      d_needed (detect_fact_check_needed msg ctx) \<and>
      d_agent_type (detect_fact_check_needed msg ctx) = Some LinkedIn \<and>
      d_confidence (detect_fact_check_needed msg ctx) = 7 / 10) \<and>
   (\<not> family_matches linkedin_patterns msg \<and> family_matches brave_patterns msg \<longrightarrow>
      d_needed (detect_fact_check_needed msg ctx) \<and>
      d_agent_type (detect_fact_check_needed msg ctx) = Some Brave \<and>
      d_confidence (detect_fact_check_needed msg ctx) = 6 / 10) \<and>
   (\<not> family_matches linkedin_patterns msg \<and> \<not> family_matches brave_patterns msg \<and>
    family_matches fact_check_patterns msg \<longrightarrow>
      d_needed (detect_fact_check_needed msg ctx) \<and>
      d_agent_type (detect_fact_check_needed msg ctx) = Some Brave \<and>
      d_confidence (detect_fact_check_needed msg ctx) = 5 / 10) \<and>
   (\<not> family_matches linkedin_patterns msg \<and> \<not> family_matches brave_patterns msg \<and>
    \<not> family_matches fact_check_patterns msg \<longrightarrow>
      detect_fact_check_needed msg ctx =
        \<lparr>d_needed = False, d_agent_type = None, d_query = None, d_confidence = 0,
         d_extracted_info = None, d_claim = None\<rparr>) \<and>
   detect_fact_check_needed ''I work at Acme Corp'' ctx =
     \<lparr>d_needed = True, d_agent_type = Some LinkedIn, d_query = Some ''acme corp'',
      d_confidence = 7 / 10,
      d_extracted_info = Some \<lparr>li_name = None, li_company = Some ''acme corp'', li_title = None\<rparr>,
      d_claim = None\<rparr> \<and>
   detect_fact_check_needed ''According to a recent report, X is true'' ctx =
     \<lparr>d_needed = True, d_agent_type = Some Brave,
      d_query = Some ''According to a recent report, X is true'', d_confidence = 6 / 10,
      d_extracted_info = None, d_claim = Some ''According to a recent report, X is true''\<rparr>"
proof (intro conjI impI)
  show "detect_fact_check_needed ''I work at Acme Corp'' ctx =
     \<lparr>d_needed = True, d_agent_type = Some LinkedIn, d_query = Some ''acme corp'',
      d_confidence = 7 / 10,
      d_extracted_info = Some \<lparr>li_name = None, li_company = Some ''acme corp'', li_title = None\<rparr>,
      d_claim = None\<rparr>"
    by (rule acme_detection)
  show "detect_fact_check_needed ''According to a recent report, X is true'' ctx =
     \<lparr>d_needed = True, d_agent_type = Some Brave,
      d_query = Some ''According to a recent report, X is true'', d_confidence = 6 / 10,
      d_extracted_info = None, d_claim = Some ''According to a recent report, X is true''\<rparr>"
    by (rule report_detection)
qed (simp_all add: detect_linkedin detect_brave detect_fallback detect_none)

text \<open>
  A message that only the generic assertion patterns match, and one that nothing
  matches.
\<close>

theorem detection_family_order_witness:
  "d_confidence (detect_fact_check_needed ''i am at home'' []) = 1 / 2 \<and>
   d_agent_type (detect_fact_check_needed ''i am at home'' []) = Some Brave \<and>
   \<not> d_needed (detect_fact_check_needed ''hello there'' [])"
proof -
  have a: "\<not> family_matches linkedin_patterns ''i am at home''"
    "\<not> family_matches brave_patterns ''i am at home''"
    "family_matches fact_check_patterns ''i am at home''"
    by code_simp+
  have b: "\<not> family_matches linkedin_patterns ''hello there''"
    "\<not> family_matches brave_patterns ''hello there''"
    "\<not> family_matches fact_check_patterns ''hello there''"
    by code_simp+
  from detection_family_order[of "''i am at home''" "[]"]
       detection_family_order[of "''hello there''" "[]"] a b
  show ?thesis by simp
qed



text \<open>
  Claim C10. Whatever the message, the confidence the classifier returns is 0, 0.5,
  0.6 or 0.7, and it is 0 exactly when \<open>needed\<close> is false; a needed detection names
  an agent and never has a confidence below 0.5. So for a detection of the classifier
  the consent gate asks exactly when the detection names an agent (it is needed) and
  that agent is configured: the confidence test never suppresses it.
\<close>

theorem classifier_confidence_categorical:
  "d_confidence (detect_fact_check_needed msg ctx) \<in> {0, 5 / 10, 6 / 10, 7 / 10} \<and>
   (\<not> d_needed (detect_fact_check_needed msg ctx)) =
     (d_confidence (detect_fact_check_needed msg ctx) = 0) \<and>
   (\<not> (d_needed (detect_fact_check_needed msg ctx) \<and>
        d_confidence (detect_fact_check_needed msg ctx) < 5 / 10)) \<and>
   d_needed (detect_fact_check_needed msg ctx) =
     (d_agent_type (detect_fact_check_needed msg ctx) \<noteq> None) \<and>
   should_ask_consent router (detect_fact_check_needed msg ctx) =
     (case d_agent_type (detect_fact_check_needed msg ctx) of
        None \<Rightarrow> False
      | Some a \<Rightarrow> capability_configured router a)"
proof (cases "family_matches linkedin_patterns msg")
  case True
  from detect_linkedin[OF True, of ctx] show ?thesis
    by (simp add: should_ask_consent_def)
next
  case l: False
  show ?thesis
  proof (cases "family_matches brave_patterns msg")
    case True
    show ?thesis
      by (simp add: detect_brave[OF l True] should_ask_consent_def)
  next
    case b: False
    show ?thesis
    proof (cases "family_matches fact_check_patterns msg")
      case True
      show ?thesis
        by (simp add: detect_fallback[OF l b True] should_ask_consent_def)
    next
      case False
      show ?thesis
        by (simp add: detect_none[OF l b False] should_ask_consent_def)
    qed
  qed
qed

text \<open>
  A message of the generic family asks for consent when Brave is configured and does
  not when no tool is enabled.
\<close>

theorem classifier_confidence_categorical_witness:
  "should_ask_consent sample_router (detect_fact_check_needed ''i am at home'' []) \<and>
   \<not> should_ask_consent (AgentRouter_init default_config True)
       (detect_fact_check_needed ''i am at home'' [])"
proof -
  have a: "d_agent_type (detect_fact_check_needed ''i am at home'' []) = Some Brave"
    by code_simp
  have c: "capability_configured sample_router Brave"
    "\<not> capability_configured (AgentRouter_init default_config True) Brave"
    by (simp_all add: sample_router_def tools_config_def AgentRouter_init_def tool_calls_def
        default_config_def)
  from classifier_confidence_categorical[of "''i am at home''" "[]" sample_router]
       classifier_confidence_categorical[of "''i am at home''" "[]"
         "AgentRouter_init default_config True"] a c
  show ?thesis by simp
qed

section \<open>Discount service: simulated codes\<close>











section \<open>Conversation orchestrator: the pending consent\<close>

lemma chat_pending:
  "pending_fact_check agent \<noteq> None \<Longrightarrow> chat w msg agent = handle_consent_response w msg agent"
  by (simp add: chat_def is_consent_response_def)

lemma get_llm_response_answers:
  assumes "llm_answers w" and "llm_client agent \<noteq> UnknownClient"
  shows "\<exists>reply. get_llm_response w agent = Inr reply"
proof (cases "llm_client agent")
  case OpenAIClient
  from assms(1) obtain reply where
    "w_llm w (OpenAIRequest (conversation_history agent)) = LLMReturns reply"
    unfolding llm_answers_def by blast
  with OpenAIClient show ?thesis by (simp add: get_llm_response_def)
next
  case AnthropicClient
  from assms(1) obtain reply where
    "w_llm w (AnthropicRequest (system_prompt agent)
        (filter (\<lambda>msg. m_role msg \<noteq> System) (conversation_history agent))) = LLMReturns reply"
    unfolding llm_answers_def by blast
  with AnthropicClient show ?thesis by (simp add: get_llm_response_def)
next
  case UnknownClient
  with assms(2) show ?thesis by simp
qed

lemma append_message_fields:
  "llm_client (append_message r c agent) = llm_client agent"
  "pending_fact_check (append_message r c agent) = pending_fact_check agent"
  "discount_service (append_message r c agent) = discount_service agent"
  "ba_trait_detector (append_message r c agent) = ba_trait_detector agent"
  "last_discount_code (append_message r c agent) = last_discount_code agent"
  "agent_router (append_message r c agent) = agent_router agent"
  "conversation_history (append_message r c agent) =
     conversation_history agent @ [\<lparr>m_role = r, m_content = c\<rparr>]"
  by (simp_all add: append_message_def)

lemma consent_declined:
  assumes "pending_fact_check agent = Some d" and "str_strip (str_lower msg) \<notin> set affirmative"
  shows "handle_consent_response w msg agent =
    (Inr (''No problem, I won't look that up. How else can I help you?'', None),
     (append_message Assistant
        (Text ''No problem, I won't look that up. How else can I help you?'') agent)
       \<lparr>pending_fact_check := None\<rparr>, [])"
  using assms by (simp add: handle_consent_response_def Let_def)

lemma consent_given_raises:
  assumes "pending_fact_check agent = Some d" and "str_strip (str_lower msg) \<in> set affirmative"
    and "get_llm_response w
           (append_message System
              (FactCheckSummary (d_agent_type d)
                 (case fc_summary (execute_fact_check (w_caps w) (d_agent_type d) (d_query d)
                                     (d_extracted_info d) (agent_router agent)) of
                    Some s \<Rightarrow> s | None \<Rightarrow> ''No results found'')) agent) = Inl e"
  shows "handle_consent_response w msg agent =
    (Inl e,
     append_message System
       (FactCheckSummary (d_agent_type d)
          (case fc_summary (execute_fact_check (w_caps w) (d_agent_type d) (d_query d)
                              (d_extracted_info d) (agent_router agent)) of
             Some s \<Rightarrow> s | None \<Rightarrow> ''No results found'')) agent,
     [\<lparr>call_agent_type = d_agent_type d, call_query = d_query d,
       call_context = d_extracted_info d\<rparr>])"
  using assms by (simp add: handle_consent_response_def Let_def)

lemma consent_given_returns:
  assumes "pending_fact_check agent = Some d" and "str_strip (str_lower msg) \<in> set affirmative"
    and "get_llm_response w
           (append_message System
              (FactCheckSummary (d_agent_type d)
                 (case fc_summary (execute_fact_check (w_caps w) (d_agent_type d) (d_query d)
                                     (d_extracted_info d) (agent_router agent)) of
                    Some s \<Rightarrow> s | None \<Rightarrow> ''No results found'')) agent) = Inr reply"
  shows "handle_consent_response w msg agent =
    (Inr (reply, None),
     (append_message Assistant (Text reply)
        (append_message System
           (FactCheckSummary (d_agent_type d)
              (case fc_summary (execute_fact_check (w_caps w) (d_agent_type d) (d_query d)
                                  (d_extracted_info d) (agent_router agent)) of
                 Some s \<Rightarrow> s | None \<Rightarrow> ''No results found'')) agent))
       \<lparr>pending_fact_check := None\<rparr>,
     [\<lparr>call_agent_type = d_agent_type d, call_query = d_query d,
       call_context = d_extracted_info d\<rparr>])"
  using assms by (simp add: handle_consent_response_def Let_def)


lemma constructed_client_known:
  "BouncerAgent_init cfg env fresh session = Inr agent \<Longrightarrow> llm_client agent \<noteq> UnknownClient"
  by (auto simp: BouncerAgent_init_def initialize_llm_client_def split: if_splits sum.splits)

lemma first_agent_constructed:
  "BouncerAgent_init tools_config sample_settings ''fresh'' (Some ''s'') = Inr first_agent"
  by (simp add: BouncerAgent_init_def initialize_llm_client_def sample_settings_def
      first_agent_def)

lemma awaiting_asked:
  "fst (chat calm_world ''I work at Acme Corp'' first_agent) =
     Inr (''Fine.'', Some ''Can I look that up on LinkedIn? (yes/no)'')"
  by code_simp

lemma awaiting_pending: "pending_fact_check awaiting_agent = Some acme_pending"
  by code_simp

lemma awaiting_client: "llm_client awaiting_agent = OpenAIClient"
  by code_simp

lemma yes_trimmed: "str_strip (str_lower ''Yes '') = ''yes''"
  by code_simp

lemma yes_plain: "str_strip (str_lower ''yes'') = ''yes''"
  by code_simp

lemma no_plain: "str_strip (str_lower ''no'') = ''no''"
  by code_simp

text \<open>
  Claim C4 as stated fails when the language model raises: after the answer \<open>yes\<close> the
  one dispatch has been made, the exception leaves \<open>chat\<close>, and the pending detection
  is still set.
\<close>

theorem consent_llm_failure_counterexample:
  "fst (chat offline_world ''yes'' awaiting_agent) = Inl (OtherException ''Connection error.'') \<and>
   pending_fact_check (fst (snd (chat offline_world ''yes'' awaiting_agent))) = Some acme_pending \<and>
   snd (snd (chat offline_world ''yes'' awaiting_agent)) =
     [\<lparr>call_agent_type = Some LinkedIn, call_query = Some ''acme corp'',
       call_context = Some \<lparr>li_name = None, li_company = Some ''acme corp'', li_title = None\<rparr>\<rparr>]"
proof -
  note p = awaiting_pending
  have a: "str_strip (str_lower ''yes'') \<in> set affirmative"
    by (simp add: yes_plain affirmative_def)
  have l: "get_llm_response offline_world agent = Inl (OtherException ''Connection error.'')"
    if "llm_client agent = OpenAIClient" for agent
    using that by (simp add: get_llm_response_def offline_world_def)
  note c = awaiting_client
  have "chat offline_world ''yes'' awaiting_agent =
          handle_consent_response offline_world ''yes'' awaiting_agent"
    by (rule chat_pending) (simp add: p)
  also have "\<dots> = (Inl (OtherException ''Connection error.''),
     append_message System
       (FactCheckSummary (d_agent_type acme_pending)
          (case fc_summary (execute_fact_check (w_caps offline_world) (d_agent_type acme_pending)
                              (d_query acme_pending) (d_extracted_info acme_pending)
                              (agent_router awaiting_agent)) of
             Some s \<Rightarrow> s | None \<Rightarrow> ''No results found'')) awaiting_agent,
     [\<lparr>call_agent_type = d_agent_type acme_pending, call_query = d_query acme_pending,
       call_context = d_extracted_info acme_pending\<rparr>])"
    by (rule consent_given_raises[OF p a]) (simp add: l append_message_fields c)
  finally show ?thesis
    by (simp add: append_message_fields p) (simp add: acme_pending_def)
qed

text \<open>
  Claim C4, as amended. While a detection is pending, \<open>chat\<close> is the consent handler
  alone: no user message is recorded, and the trait detector, the discount service and
  the last discount code are untouched. If the lowercase, trimmed message is one of
  \<open>yes, y, yeah, sure, ok, okay, go ahead\<close>, exactly one dispatch is made, that of the
  pending detection, and, provided the language model answers, the turn returns a
  reply without consent request and the pending detection is cleared. For any other
  message no dispatch is made, the polite refusal is returned and the pending detection
  is cleared. In no case is another detection recorded as pending.
\<close>

theorem pending_consent_answer:
  assumes "pending_fact_check agent = Some d"
  shows "chat w msg agent = handle_consent_response w msg agent \<and>
    (let result = fst (chat w msg agent); agent' = fst (snd (chat w msg agent));
         calls = snd (snd (chat w msg agent))
     in discount_service agent' = discount_service agent \<and>
        ba_trait_detector agent' = ba_trait_detector agent \<and>
        last_discount_code agent' = last_discount_code agent \<and>
        filter (\<lambda>m. m_role m = User) (conversation_history agent') =
          filter (\<lambda>m. m_role m = User) (conversation_history agent) \<and>
        (pending_fact_check agent' = None \<or> pending_fact_check agent' = Some d) \<and>
        (if str_strip (str_lower msg) \<in>
              set [''yes'', ''y'', ''yeah'', ''sure'', ''ok'', ''okay'', ''go ahead'']
         then calls = [\<lparr>call_agent_type = d_agent_type d, call_query = d_query d,
                         call_context = d_extracted_info d\<rparr>] \<and>
              (llm_answers w \<and> llm_client agent \<noteq> UnknownClient \<longrightarrow>
                 (\<exists>reply. result = Inr (reply, None)) \<and> pending_fact_check agent' = None)
         else calls = [] \<and>
              result = Inr (''No problem, I won't look that up. How else can I help you?'', None) \<and>
              pending_fact_check agent' = None))"
proof -
  have c: "chat w msg agent = handle_consent_response w msg agent"
    by (rule chat_pending) (simp add: assms)
  let ?summarised = "append_message System
       (FactCheckSummary (d_agent_type d)
          (case fc_summary (execute_fact_check (w_caps w) (d_agent_type d) (d_query d)
                              (d_extracted_info d) (agent_router agent)) of
             Some s \<Rightarrow> s | None \<Rightarrow> ''No results found'')) agent"
  show ?thesis
  proof (cases "str_strip (str_lower msg) \<in> set affirmative")
    case False
    then have n: "str_strip (str_lower msg) \<notin>
        set [''yes'', ''y'', ''yeah'', ''sure'', ''ok'', ''okay'', ''go ahead'']"
      by (simp add: affirmative_def)
    show ?thesis
      unfolding c consent_declined[OF assms False] Let_def
      using n by (simp add: append_message_fields)
  next
    case True
    then have y: "str_strip (str_lower msg) \<in>
        set [''yes'', ''y'', ''yeah'', ''sure'', ''ok'', ''okay'', ''go ahead'']"
      by (simp add: affirmative_def)
    show ?thesis
    proof (cases "get_llm_response w ?summarised")
      case (Inl e)
      have "\<not> (llm_answers w \<and> llm_client agent \<noteq> UnknownClient)"
        using get_llm_response_answers[of w ?summarised] Inl
        by (auto simp: append_message_fields)
      then show ?thesis
        unfolding c consent_given_raises[OF assms True Inl] Let_def
        using y by (simp add: append_message_fields assms)
    next
      case (Inr reply)
      show ?thesis
        unfolding c consent_given_returns[OF assms True Inr] Let_def
        using y by (simp add: append_message_fields)
    qed
  qed
qed

text \<open>
  The waiting agent answers \<open>Yes\<close> (with a trailing blank) by one LinkedIn dispatch and
  a reply, and \<open>no\<close> by the refusal without dispatch; both clear the pending detection.
\<close>

theorem pending_consent_answer_witness:
  "snd (snd (chat calm_world ''Yes '' awaiting_agent)) =
     [\<lparr>call_agent_type = Some LinkedIn, call_query = Some ''acme corp'',
       call_context = Some \<lparr>li_name = None, li_company = Some ''acme corp'', li_title = None\<rparr>\<rparr>] \<and>
   pending_fact_check (fst (snd (chat calm_world ''Yes '' awaiting_agent))) = None \<and>
   snd (snd (chat calm_world ''no'' awaiting_agent)) = [] \<and>
   pending_fact_check (fst (snd (chat calm_world ''no'' awaiting_agent))) = None"
proof -
  note p = awaiting_pending
  have l: "llm_answers calm_world \<and> llm_client awaiting_agent \<noteq> UnknownClient"
    by (simp add: llm_answers_def calm_world_def awaiting_client)
  from pending_consent_answer[OF p, THEN conjunct2, of calm_world "''Yes ''"] l
  have a: "snd (snd (chat calm_world ''Yes '' awaiting_agent)) =
       [\<lparr>call_agent_type = d_agent_type acme_pending, call_query = d_query acme_pending,
         call_context = d_extracted_info acme_pending\<rparr>] \<and>
     pending_fact_check (fst (snd (chat calm_world ''Yes '' awaiting_agent))) = None"
    unfolding Let_def by (simp add: yes_trimmed)
  from pending_consent_answer[OF p, THEN conjunct2, of calm_world "''no''"]
  have b: "snd (snd (chat calm_world ''no'' awaiting_agent)) = [] \<and>
     pending_fact_check (fst (snd (chat calm_world ''no'' awaiting_agent))) = None"
    unfolding Let_def by (simp add: no_plain)
  from a b show ?thesis by (simp add: acme_pending_def)
qed

end
